theory Spec2Isabelle
  imports Main "HOL-Library.Word" "HOL-Library.Signed_Division"
begin

section \<open>gosocks: the SOCKS5 negotiation and the relay loops of gosocks.go\<close>

text \<open>
  The program is one Go file. \<^verbatim>\<open>clientLoop\<close> serves one accepted connection: it reads
  the greeting, answers the method selection, reads the request, resolves and dials the
  target, writes the reply and then starts the two relay loops \<^verbatim>\<open>readClientLoop\<close> and
  \<^verbatim>\<open>readRemoteLoop\<close>. This theory embeds these three functions. Everything they get
  from outside (the bytes arriving on a socket, the outcome of a write, the DNS lookup, the
  dial) is a parameter: a script carried by the connection, or a field of the environment.
\<close>

subsection \<open>Data\<close>

type_synonym byte = "8 word"

text \<open>\<^verbatim>\<open>os.Error\<close> as the code tells errors apart: \<^verbatim>\<open>os.EOF\<close> or anything else.
  \<open>None\<close> is \<^verbatim>\<open>nil\<close>.\<close>

datatype ioerr = EOF | OtherError

text \<open>\<^verbatim>\<open>net.TCPAddr\<close>: \<^verbatim>\<open>IP\<close> is a byte slice, \<^verbatim>\<open>Port\<close> an \<^verbatim>\<open>int\<close>.\<close>

record TCPAddr =
  IP :: "byte list"
  Port :: int

text \<open>
  \<^verbatim>\<open>net.TCPConn\<close>, by what the program can observe of it.
  \<^item> \<open>reads\<close>: the results \<open>(data, err)\<close> of the coming \<^verbatim>\<open>Read\<close> calls, in order. Once
    they are used up the peer has closed: every further \<^verbatim>\<open>Read\<close> returns \<open>(0, os.EOF)\<close>.
  \<^item> \<open>accepts\<close>: the results \<open>(n, err)\<close> of the coming \<^verbatim>\<open>Write\<close> calls. Once they are
    used up every \<^verbatim>\<open>Write\<close> takes its whole argument and returns \<^verbatim>\<open>nil\<close>.
  \<^item> \<open>outbox\<close>: the arguments of the \<^verbatim>\<open>Write\<close> calls made so far, oldest first.
  \<^item> \<open>localAddr\<close>: the address the socket is bound to locally (\<^verbatim>\<open>LocalAddr()\<close>).
\<close>

record TCPConn =
  reads :: "(byte list \<times> ioerr option) list"
  accepts :: "(nat \<times> ioerr option) list"
  outbox :: "byte list list"
  localAddr :: TCPAddr

text \<open>The collaborators of \<^verbatim>\<open>clientLoop\<close>: \<^verbatim>\<open>net.LookupIP\<close> (\<open>None\<close> when it returns an
  error) and \<^verbatim>\<open>net.DialTCP("tcp", nil, addr)\<close> (\<open>None\<close> when it returns an error).\<close>

record env =
  LookupIP :: "byte list \<Rightarrow> byte list list option"
  DialTCP :: "TCPAddr \<Rightarrow> TCPConn option"

text \<open>The places where \<^verbatim>\<open>clientLoop\<close> returns, named after the line logged there;
  \<open>Panicked\<close> is a run-time panic (slice or index out of range), \<open>RelayEnded\<close> the
  normal end after both relay loops have returned.\<close>

datatype exit_reason =
    FailedReadVersionMethods
  | NotSocks5
  | NoMethodProvided
  | FailedReadMethods
  | NoAuthNotOffered
  | FailedWriteMethod
  | FailedReadRequestHeader
  | RequestVersionMismatch
  | CommandNotImplemented
  | ReservedNotZero
  | FailedReadAddress
  | FailedReadHostLen
  | FailedReadHostName
  | FailedResolve
  | NoIPForHost
  | FailedReadPort
  | UnknownAddressType
  | FailedConnect
  | FailedWriteReply
  | Panicked
  | RelayEnded

subsection \<open>Socket operations\<close>

text \<open>\<^verbatim>\<open>c.Read(buf)\<close> with \<open>len(buf) = k\<close>: the next scripted result; data that does not fit
  the buffer stays for the next call.\<close>

definition Read :: "TCPConn \<Rightarrow> nat \<Rightarrow> (byte list \<times> ioerr option) \<times> TCPConn" where
  "Read c k =
    (case reads c of
       [] \<Rightarrow> (([], Some EOF), c)
     | (d, e) # rs \<Rightarrow>
         if length d \<le> k then ((d, e), c\<lparr>reads := rs\<rparr>)
         else ((take k d, None), c\<lparr>reads := (drop k d, e) # rs\<rparr>))"

text \<open>\<^verbatim>\<open>c.Write(b)\<close>: returns the number of bytes taken and the error.\<close>

definition Write :: "TCPConn \<Rightarrow> byte list \<Rightarrow> (nat \<times> ioerr option) \<times> TCPConn" where
  "Write c b =
    (case accepts c of
       [] \<Rightarrow> ((length b, None), c\<lparr>outbox := outbox c @ [b]\<rparr>)
     | (n, e) # ws \<Rightarrow> ((min n (length b), e), c\<lparr>accepts := ws, outbox := outbox c @ [b]\<rparr>))"

text \<open>
  \<^verbatim>\<open>io.ReadFull(c, buf)\<close> with \<open>len(buf) = n\<close>: calls \<^verbatim>\<open>Read\<close> on the rest of the buffer
  until \<open>n\<close> bytes are there or a call returns an error. It returns the bytes read and
  \<^verbatim>\<open>nil\<close> exactly when all \<open>n\<close> bytes were read.
\<close>

function ReadFull :: "TCPConn \<Rightarrow> nat \<Rightarrow> (byte list \<times> ioerr option) \<times> TCPConn" where
  "ReadFull c n =
    (if n = 0 then (([], None), c)
     else
       (case Read c n of
          ((d, e), c') \<Rightarrow>
            if n \<le> length d then ((d, None), c')
            else if e \<noteq> None then ((d, e), c')
            else
              (case ReadFull c' (n - length d) of
                 ((d', e'), c'') \<Rightarrow> ((d @ d', e'), c''))))"
  by pat_completeness auto
termination
proof (relation "measures [\<lambda>(c, n). n, \<lambda>(c, n). length (reads c)]", goal_cases)
  case 1
  show ?case by simp
next
  case (2 c n x1 c' d e)
  then show ?case
    by (cases "reads c") (auto simp: Read_def split: if_splits prod.splits)
qed

declare ReadFull.simps [simp del]

text \<open>A Go array of \<open>n\<close> bytes after \<^verbatim>\<open>ReadFull\<close> wrote \<open>d\<close> into it: it starts zeroed.\<close>

definition filled :: "nat \<Rightarrow> byte list \<Rightarrow> byte list" where
  "filled n d = take n d @ replicate (n - length d) 0"

text \<open>The bytes that the scripted \<^verbatim>\<open>Read\<close> results of a socket still hold: what the
  peer has sent or will send and the program has not read.\<close>

definition unread :: "TCPConn \<Rightarrow> byte list" where
  "unread c = concat (map fst (reads c))"

subsection \<open>\<^verbatim>\<open>clientLoop\<close>, lines 41 to 83: greeting and method selection\<close>

text \<open>The loop over \<^verbatim>\<open>methods[i]\<close>, \<open>i\<close> from 0 to \<open>nMethods\<close>, leaving at the first
  0x00.\<close>

fun hasMethod0 :: "byte list \<Rightarrow> bool" where
  "hasMethod0 [] = False"
| "hasMethod0 (m # ms) = (if m = 0 then True else hasMethod0 ms)"

text \<open>A stage of \<^verbatim>\<open>clientLoop\<close> either returns (\<open>Inl\<close>: the place, and the client
  socket as it is when the deferred \<^verbatim>\<open>client.Close()\<close> runs) or goes on (\<open>Inr\<close>).\<close>

definition greeting :: "TCPConn \<Rightarrow> (exit_reason \<times> TCPConn) + TCPConn" where
  "greeting client =
    (case ReadFull client 2 of
       ((d, err), c1) \<Rightarrow>
         let versionMethod = filled 2 d in
         if err \<noteq> None then Inl (FailedReadVersionMethods, c1)
         else if versionMethod ! 0 \<noteq> 5 then Inl (NotSocks5, c1)
         else
           let nMethods = versionMethod ! 1 in
           if nMethods = 0 then Inl (NoMethodProvided, c1)
           else
             (case ReadFull c1 (unat nMethods) of
                ((d2, err2), c2) \<Rightarrow>
                  let methods = filled (unat nMethods) d2 in
                  if err2 \<noteq> None then Inl (FailedReadMethods, c2)
                  else if \<not> hasMethod0 methods then Inl (NoAuthNotOffered, c2)
                  else
                    (case Write c2 (versionMethod[1 := 0]) of
                       ((nw, err3), c3) \<Rightarrow>
                         if err3 \<noteq> None \<or> nw \<noteq> length versionMethod
                         then Inl (FailedWriteMethod, c3)
                         else Inr c3)))"

subsection \<open>\<^verbatim>\<open>clientLoop\<close>, lines 85 to 163: the request\<close>

text \<open>\<^verbatim>\<open>int(hi)<<8 + int(lo)\<close>.\<close>

definition portOf :: "byte \<Rightarrow> byte \<Rightarrow> int" where
  "portOf hi lo = push_bit 8 (uint hi) + uint lo"

text \<open>Lines 112 to 124, address types 0x01 and 0x04: \<open>ipLen\<close> and \<open>ipLen + 2\<close> are
  computed on bytes.\<close>

text \<open>Lines 121 and 122: the address and the port taken from the bytes read.\<close>

definition decodeAddress :: "byte \<Rightarrow> byte list \<Rightarrow> TCPAddr" where
  "decodeAddress ipLen buf =
    \<lparr>IP = take (unat ipLen) buf,
     Port = portOf (buf ! unat ipLen) (buf ! unat (ipLen + 1))\<rparr>"

definition readIPAddress ::
  "TCPConn \<Rightarrow> byte \<Rightarrow> byte list \<Rightarrow> (exit_reason \<times> TCPConn) + (TCPConn \<times> byte list \<times> TCPAddr)" where
  "readIPAddress client atyp reply =
    (let ipLen = 4 * atyp in
     case ReadFull client (unat (ipLen + 2)) of
       ((d, err), c1) \<Rightarrow>
         let buf = filled (unat (ipLen + 2)) d in
         if err \<noteq> None then Inl (FailedReadAddress, c1)
         else
           Inr (c1, reply[3 := atyp], decodeAddress ipLen buf))"

text \<open>Lines 125 to 157, address type 0x03. The source assigns \<^verbatim>\<open>len(ips[0]) / 4\<close> to
  the byte \<^verbatim>\<open>reply[3]\<close>; the model converts it to a byte.\<close>

definition readDomainAddress ::
  "env \<Rightarrow> TCPConn \<Rightarrow> byte list \<Rightarrow> (exit_reason \<times> TCPConn) + (TCPConn \<times> byte list \<times> TCPAddr)" where
  "readDomainAddress E client reply =
    (case ReadFull client 1 of
       ((d, err), c1) \<Rightarrow>
         let hostLen = filled 1 d in
         if err \<noteq> None then Inl (FailedReadHostLen, c1)
         else
           (case ReadFull c1 (unat (hostLen ! 0)) of
              ((d2, err2), c2) \<Rightarrow>
                let host = filled (unat (hostLen ! 0)) d2 in
                if err2 \<noteq> None then Inl (FailedReadHostName, c2)
                else
                  (case LookupIP E host of
                     None \<Rightarrow> Inl (FailedResolve, c2)
                   | Some ips \<Rightarrow>
                       if length ips = 0 then Inl (NoIPForHost, c2)
                       else
                         let reply' = reply[3 := of_nat (length (ips ! 0) div 4)] in
                         (case ReadFull c2 2 of
                            ((d3, err3), c3) \<Rightarrow>
                              let port = filled 2 d3 in
                              if err3 \<noteq> None then Inl (FailedReadPort, c3)
                              else
                                Inr (c3, reply',
                                     \<lparr>IP = ips ! 0, Port = portOf (port ! 0) (port ! 1)\<rparr>)))))"

text \<open>Lines 92 to 94: the reply array, 22 zero bytes with the version set.\<close>

definition initReply :: "byte list" where
  "initReply = (replicate 22 0)[0 := 5, 2 := 0]"

text \<open>Lines 85 to 163. The result of the two abbreviated \<^verbatim>\<open>client.Write(reply[:4])\<close> is
  not looked at.\<close>

definition request ::
  "env \<Rightarrow> TCPConn \<Rightarrow> (exit_reason \<times> TCPConn) + (TCPConn \<times> byte list \<times> TCPAddr)" where
  "request E client =
    (case ReadFull client 4 of
       ((d, err), c1) \<Rightarrow>
         let requestHeader = filled 4 d in
         if err \<noteq> None then Inl (FailedReadRequestHeader, c1)
         else
           let reply = initReply in
           if requestHeader ! 0 \<noteq> 5 then Inl (RequestVersionMismatch, c1)
           else if requestHeader ! 1 \<noteq> 1 then
             (case Write c1 (take 4 (reply[1 := 7])) of
                (_, c2) \<Rightarrow> Inl (CommandNotImplemented, c2))
           else if requestHeader ! 2 \<noteq> 0 then Inl (ReservedNotZero, c1)
           else if requestHeader ! 3 = 1 \<or> requestHeader ! 3 = 4 then
             readIPAddress c1 (requestHeader ! 3) reply
           else if requestHeader ! 3 = 3 then
             readDomainAddress E c1 reply
           else
             (case Write c1 (take 4 (reply[1 := 8])) of
                (_, c2) \<Rightarrow> Inl (UnknownAddressType, c2)))"

subsection \<open>\<^verbatim>\<open>clientLoop\<close>, lines 166 to 184: dial and reply\<close>

text \<open>\<^verbatim>\<open>copy(dst[lo:hi], src)\<close>, for \<open>lo \<le> hi \<le> len(dst)\<close>: copies as many bytes as fit.\<close>

definition copySlice :: "byte list \<Rightarrow> nat \<Rightarrow> nat \<Rightarrow> byte list \<Rightarrow> byte list" where
  "copySlice dst lo hi src =
    (let n = min (hi - lo) (length src)
     in take lo dst @ take n src @ drop (lo + n) dst)"

text \<open>
  Lines 175 to 180: the slice \<^verbatim>\<open>reply[:ipEnd+2]\<close> handed to \<^verbatim>\<open>client.Write\<close>. \<open>ipEnd\<close>
  is a byte; \<open>reply\<close> has 22 bytes, so a slice bound above 22, a lower bound above the
  upper one and an index from 22 on panic (\<open>None\<close>). \<^verbatim>\<open>>>\<close> on an \<^verbatim>\<open>int\<close> is the arithmetic
  shift, \<^verbatim>\<open>%\<close> truncates towards zero.
\<close>

definition successReply :: "byte list \<Rightarrow> TCPAddr \<Rightarrow> byte list option" where
  "successReply reply remoteAddress =
    (let reply1 = reply[1 := 0];
         ipEnd = (4 + 4 * (reply1 ! 3) :: byte)
     in if unat ipEnd < 4 \<or> 22 < unat ipEnd then None
        else
          let reply2 = copySlice reply1 4 (unat ipEnd) (IP remoteAddress) in
          if 22 \<le> unat ipEnd then None
          else
            let reply3 = reply2[unat ipEnd := word_of_int (drop_bit 8 (Port remoteAddress))] in
            if 22 \<le> unat (ipEnd + 1) then None
            else
              let reply4 = reply3[unat (ipEnd + 1) := word_of_int (Port remoteAddress smod 256)] in
              if 22 < unat (ipEnd + 2) then None
              else Some (take (unat (ipEnd + 2)) reply4))"

definition connect ::
  "env \<Rightarrow> TCPConn \<Rightarrow> byte list \<Rightarrow> TCPAddr \<Rightarrow> (exit_reason \<times> TCPConn) + (TCPConn \<times> TCPConn)" where
  "connect E client reply remoteAddress =
    (case DialTCP E remoteAddress of
       None \<Rightarrow>
         (case Write client (take 6 (reply[1 := 5])) of
            (_, c1) \<Rightarrow> Inl (FailedConnect, c1))
     | Some remote \<Rightarrow>
         (case successReply reply remoteAddress of
            None \<Rightarrow> Inl (Panicked, client)
          | Some frame \<Rightarrow>
              (case Write client frame of
                 ((nw, err), c1) \<Rightarrow>
                   if err \<noteq> None then Inl (FailedWriteReply, c1)
                   else Inr (c1, remote))))"

text \<open>Lines 37 to 184: everything \<^verbatim>\<open>clientLoop\<close> does before it starts the relay.
  \<open>Inr (client, remote)\<close> is the pair of sockets handed to the two relay loops.\<close>

definition negotiate :: "env \<Rightarrow> TCPConn \<Rightarrow> (exit_reason \<times> TCPConn) + (TCPConn \<times> TCPConn)" where
  "negotiate E client =
    (case greeting client of
       Inl x \<Rightarrow> Inl x
     | Inr c1 \<Rightarrow>
         (case request E c1 of
            Inl x \<Rightarrow> Inl x
          | Inr (c2, reply, remoteAddress) \<Rightarrow> connect E c2 reply remoteAddress))"

subsection \<open>The relay loops, lines 193 to 243\<close>

text \<open>
  The inner loop \<^verbatim>\<open>for start < nr\<close> of both relay loops: it writes \<^verbatim>\<open>buf[start:nr]\<close> to
  \<open>dst\<close> and moves \<open>start\<close> by the number of bytes taken. \<open>buf\<close> is \<^verbatim>\<open>buf[:nr]\<close>. The
  result is \<open>False\<close> when the loop left through the \<^verbatim>\<open>return\<close> after a write error that
  is not \<^verbatim>\<open>os.EOF\<close>, \<open>True\<close> when it ran to its end.
\<close>

function forward :: "TCPConn \<Rightarrow> byte list \<Rightarrow> nat \<Rightarrow> bool \<times> TCPConn" where
  "forward dst buf start =
    (if start < length buf then
       (case Write dst (drop start buf) of
          ((nw, err), dst') \<Rightarrow>
            if err \<noteq> None \<and> err \<noteq> Some EOF then (False, dst')
            else forward dst' buf (start + nw))
     else (True, dst))"
  by pat_completeness auto
termination
proof (relation "measure (\<lambda>(dst, buf, start). length (accepts dst) + (length buf - start))",
    goal_cases)
  case 1
  show ?case by simp
next
  case (2 dst buf start x1 dst' nw err)
  then show ?case
    by (cases "accepts dst") (auto simp: Write_def)
qed

declare forward.simps [simp del]

text \<open>
  \<^verbatim>\<open>readClientLoop\<close>, lines 199 to 216: the \<^verbatim>\<open>for\<close> loop has no condition and is left
  only by the two \<^verbatim>\<open>return\<close> statements. \<open>None\<close> is a loop that never returns. The result
  is the two sockets as they are when the deferred \<^verbatim>\<open>stopChan <- true\<close> runs.
\<close>

partial_function (option) readClientLoop :: "TCPConn \<Rightarrow> TCPConn \<Rightarrow> (TCPConn \<times> TCPConn) option" where
  "readClientLoop client remote =
    (case Read client 4096 of
       ((buf, err), client') \<Rightarrow>
         if err \<noteq> None \<and> err \<noteq> Some EOF then Some (client', remote)
         else
           (case forward remote buf 0 of
              (ok, remote') \<Rightarrow>
                if \<not> ok then Some (client', remote')
                else readClientLoop client' remote'))"

text \<open>\<^verbatim>\<open>readRemoteLoop\<close>, lines 225 to 242: the same loop, from \<open>remote\<close> to \<open>client\<close>.\<close>

partial_function (option) readRemoteLoop :: "TCPConn \<Rightarrow> TCPConn \<Rightarrow> (TCPConn \<times> TCPConn) option" where
  "readRemoteLoop client remote =
    (case Read remote 4096 of
       ((buf, err), remote') \<Rightarrow>
         if err \<noteq> None \<and> err \<noteq> Some EOF then Some (client, remote')
         else
           (case forward client buf 0 of
              (ok, client') \<Rightarrow>
                if \<not> ok then Some (client', remote')
                else readRemoteLoop client' remote'))"

text \<open>
  Lines 186 to 190: \<^verbatim>\<open>clientLoop\<close> starts both loops and receives twice from
  \<^verbatim>\<open>stopChan\<close>; each loop sends once, when it returns. So this part returns exactly when
  both loops return. \<^verbatim>\<open>readClientLoop\<close> touches the read side of \<open>client\<close> and the write
  side of \<open>remote\<close>, \<^verbatim>\<open>readRemoteLoop\<close> the other two sides, so running one after the other
  gives the sockets that any interleaving gives.
\<close>

definition relay :: "TCPConn \<Rightarrow> TCPConn \<Rightarrow> (TCPConn \<times> TCPConn) option" where
  "relay client remote =
    (case readClientLoop client remote of
       None \<Rightarrow> None
     | Some (client', remote') \<Rightarrow> readRemoteLoop client' remote')"

text \<open>\<^verbatim>\<open>clientLoop\<close> as a whole: where it returns and the client socket then; \<open>None\<close> when
  it never returns.\<close>

definition clientLoop :: "env \<Rightarrow> TCPConn \<Rightarrow> (exit_reason \<times> TCPConn) option" where
  "clientLoop E client =
    (case negotiate E client of
       Inl x \<Rightarrow> Some x
     | Inr (c, remote) \<Rightarrow>
         (case relay c remote of
            None \<Rightarrow> None
          | Some (c', remote') \<Rightarrow> Some (RelayEnded, c')))"

subsection \<open>Address families\<close>

text \<open>
  The program never looks at the family of an address, only at the length of its byte
  slice (line 149). Go's \<^verbatim>\<open>net\<close> package, which produces the addresses, tells the family
  with \<^verbatim>\<open>IP.To4\<close>: a 4-byte slice is an IPv4 address, and so is a 16-byte slice made of
  ten zero bytes, \<open>ff ff\<close> and the four bytes of the address (the form \<^verbatim>\<open>net.IPv4\<close> and
  \<^verbatim>\<open>net.ParseIP\<close> build). \<open>To4\<close> returns the four bytes, or \<open>None\<close> (\<^verbatim>\<open>nil\<close>) for an
  address that is not IPv4.
\<close>

definition To4 :: "byte list \<Rightarrow> byte list option" where
  "To4 ip =
    (if length ip = 4 then Some ip
     else if length ip = 16 \<and> take 10 ip = replicate 10 0 \<and> ip ! 10 = 255 \<and> ip ! 11 = 255
       then Some (drop 12 ip)
     else None)"

subsection \<open>Example sockets and environments\<close>

text \<open>A socket on which the given segments arrive, one per \<^verbatim>\<open>Read\<close>, before the peer
  closes; every \<^verbatim>\<open>Write\<close> on it succeeds.\<close>

definition peer :: "byte list list \<Rightarrow> TCPConn" where
  "peer segs =
    \<lparr>reads = map (\<lambda>d. (d, None)) segs, accepts = [], outbox = [],
     localAddr = \<lparr>IP = [], Port = 0\<rparr>\<rparr>"

text \<open>The outbound socket of the examples: bound locally to 10.0.0.1:50000, its peer
  silent and closed.\<close>

definition upstream :: TCPConn where
  "upstream = (peer [])\<lparr>localAddr := \<lparr>IP = [10, 0, 0, 1], Port = 50000\<rparr>\<rparr>"

text \<open>An environment where every name resolves to 93.184.216.34 and every dial
  succeeds, the same with the address 2001:db8::1 and with the IPv4 address 9.9.9.9 in its
  16-byte form, one where names resolve and no dial
  succeeds, one where every lookup returns no address, and one where every lookup and
  every dial fails.\<close>

definition envUp :: env where
  "envUp = \<lparr>LookupIP = (\<lambda>host. Some [[93, 184, 216, 34]]), DialTCP = (\<lambda>a. Some upstream)\<rparr>"

definition envUp6 :: env where
  "envUp6 =
    \<lparr>LookupIP = (\<lambda>host. Some [[32, 1, 13, 184, 0, 0, 0, 0, 0, 0, 0, 0, 0, 0, 0, 1]]),
     DialTCP = (\<lambda>a. Some upstream)\<rparr>"

definition envUpMapped :: env where
  "envUpMapped =
    \<lparr>LookupIP = (\<lambda>host. Some [[0, 0, 0, 0, 0, 0, 0, 0, 0, 0, 255, 255, 9, 9, 9, 9]]),
     DialTCP = (\<lambda>a. Some upstream)\<rparr>"

definition envNoRoute :: env where
  "envNoRoute = \<lparr>LookupIP = (\<lambda>host. Some [[93, 184, 216, 34]]), DialTCP = (\<lambda>a. None)\<rparr>"

definition envEmpty :: env where
  "envEmpty = \<lparr>LookupIP = (\<lambda>host. Some []), DialTCP = (\<lambda>a. None)\<rparr>"

definition envDown :: env where
  "envDown = \<lparr>LookupIP = (\<lambda>host. None), DialTCP = (\<lambda>a. None)\<rparr>"

section \<open>Facts about the socket operations\<close>

lemma Read_length: "Read c k = ((d, e), c') \<Longrightarrow> length d \<le> k"
  by (auto simp: Read_def split: list.splits if_splits prod.splits)

lemma Read_keeps:
  "Read c k = (r, c') \<Longrightarrow>
   accepts c' = accepts c \<and> outbox c' = outbox c \<and> localAddr c' = localAddr c"
  by (auto simp: Read_def split: list.splits if_splits prod.splits)

text \<open>\<^verbatim>\<open>ReadFull\<close> returns \<^verbatim>\<open>nil\<close> only with the whole buffer read.\<close>

lemma ReadFull_length: "ReadFull c n = ((d, None), c') \<Longrightarrow> length d = n"
proof (induction c n arbitrary: d c' rule: ReadFull.induct)
  case (1 c n)
  show ?case
  proof (cases "n = 0")
    case True
    with "1.prems" show ?thesis by (simp add: ReadFull.simps)
  next
    case False
    obtain d1 e1 c1 where r: "Read c n = ((d1, e1), c1)"
      by (metis prod.exhaust)
    have le: "length d1 \<le> n" using r by (rule Read_length)
    show ?thesis
    proof (cases "n \<le> length d1")
      case True
      with False r "1.prems" le show ?thesis by (simp add: ReadFull.simps)
    next
      case short: False
      show ?thesis
      proof (cases e1)
        case (Some a)
        with False r short "1.prems" show ?thesis by (simp add: ReadFull.simps)
      next
        case None
        obtain d2 e2 c2 where rf: "ReadFull c1 (n - length d1) = ((d2, e2), c2)"
          by (metis prod.exhaust)
        from False r short None rf "1.prems"
        have d: "d = d1 @ d2" and e2: "e2 = None"
          by (simp_all add: ReadFull.simps)
        from None have ne: "\<not> e1 \<noteq> None" by simp
        have "length d2 = n - length d1"
          by (rule "1.IH"[OF False r[symmetric] refl short ne rf[unfolded e2]])
        with d short show ?thesis by simp
      qed
    qed
  qed
qed

text \<open>Reading changes nothing on the write side of a socket.\<close>

lemma ReadFull_keeps:
  "ReadFull c n = (r, c') \<Longrightarrow>
   accepts c' = accepts c \<and> outbox c' = outbox c \<and> localAddr c' = localAddr c"
proof (induction c n arbitrary: r c' rule: ReadFull.induct)
  case (1 c n)
  show ?case
  proof (cases "n = 0")
    case True
    with "1.prems" show ?thesis by (simp add: ReadFull.simps)
  next
    case False
    obtain d1 e1 c1 where r: "Read c n = ((d1, e1), c1)"
      by (metis prod.exhaust)
    note k = Read_keeps[OF r]
    show ?thesis
    proof (cases "n \<le> length d1 \<or> e1 \<noteq> None")
      case True
      with False r "1.prems" k show ?thesis
        by (auto simp add: ReadFull.simps split: if_splits)
    next
      case short: False
      obtain d2 e2 c2 where rf: "ReadFull c1 (n - length d1) = ((d2, e2), c2)"
        by (metis prod.exhaust)
      from False r short rf "1.prems" have "c' = c2"
        by (simp add: ReadFull.simps)
      moreover from short have a: "\<not> n \<le> length d1" and b: "\<not> e1 \<noteq> None"
        by auto
      note "1.IH"[OF False r[symmetric] refl a b rf]
      ultimately show ?thesis using k by simp
    qed
  qed
qed

lemma ReadFull_outbox: "ReadFull c n = (r, c') \<Longrightarrow> outbox c' = outbox c"
  by (simp add: ReadFull_keeps)

lemma filled_id: "length d = n \<Longrightarrow> filled n d = d"
  by (simp add: filled_def)

lemma Write_outbox: "Write c b = (r, c') \<Longrightarrow> outbox c' = outbox c @ [b]"
  by (auto simp: Write_def split: list.splits prod.splits)

lemma hasMethod0_iff: "hasMethod0 ms = (0 \<in> set ms)"
  by (induction ms) auto

section \<open>Greeting and method selection\<close>

text \<open>What the greeting stage does once both reads of the greeting have succeeded with
  version 5 and a method count that is not 0.\<close>

lemma greeting_eq:
  assumes "ReadFull client 2 = (([5, n], None), c1)"
    and "n \<noteq> 0"
    and "ReadFull c1 (unat n) = ((ms, None), c2)"
    and "Write c2 [5, 0] = (w, c3)"
  shows "greeting client =
          (if 0 \<in> set ms
           then if w = (2, None) then Inr c3 else Inl (FailedWriteMethod, c3)
           else Inl (NoAuthNotOffered, c2))"
proof -
  have "length ms = unat n" using assms(3) by (rule ReadFull_length)
  then have "filled (unat n) ms = ms" by (rule filled_id)
  then show ?thesis
    using assms by (cases w) (auto simp add: greeting_def filled_def hasMethod0_iff)
qed

text \<open>
  Claim C6. Take a well-formed greeting: the first two bytes read are version 5 and a
  method count \<open>n\<close> that is not 0, and the \<open>n\<close> method bytes \<open>ms\<close> are read in full.
  \<^item> If \<open>ms\<close> contains 0x00, the proxy calls \<^verbatim>\<open>Write\<close> with exactly \<open>[0x05, 0x00]\<close>, and
    once that write has taken both bytes without error the greeting stage goes on:
    \<^verbatim>\<open>clientLoop\<close> continues with the request stage on the same socket.
  \<^item> If \<open>ms\<close> does not contain 0x00, \<^verbatim>\<open>clientLoop\<close> returns (the connection is closed)
    and nothing has been written to the client.
\<close>

theorem greeting_method_selection:
  assumes "ReadFull client 2 = (([5, n], None), c1)"
    and "n \<noteq> 0"
    and "ReadFull c1 (unat n) = ((ms, None), c2)"
    and "Write c2 [5, 0] = (w, c3)"
  shows "(0 \<in> set ms \<longrightarrow>
            outbox c3 = outbox client @ [[5, 0]] \<and>
            (w = (2, None) \<longrightarrow>
               greeting client = Inr c3 \<and>
               negotiate E client =
                 (case request E c3 of
                    Inl x \<Rightarrow> Inl x
                  | Inr (c, reply, remoteAddress) \<Rightarrow> connect E c reply remoteAddress))) \<and>
         (0 \<notin> set ms \<longrightarrow>
            clientLoop E client = Some (NoAuthNotOffered, c2) \<and> outbox c2 = outbox client)"
proof -
  note g = greeting_eq[OF assms]
  have o1: "outbox c1 = outbox client" using assms(1) by (rule ReadFull_outbox)
  have o2: "outbox c2 = outbox c1" using assms(3) by (rule ReadFull_outbox)
  have o3: "outbox c3 = outbox c2 @ [[5, 0]]" using assms(4) by (rule Write_outbox)
  show ?thesis
    using g o1 o2 o3 by (simp add: negotiate_def clientLoop_def)
qed

text \<open>The greetings \<open>05 02 01 00\<close> (0x00 offered) and \<open>05 02 01 02\<close> (0x00 not
  offered).\<close>

theorem greeting_method_selection_witness:
  "(ReadFull (peer [[5, 2, 1, 0]]) 2 = (([5, 2], None), peer [[1, 0]]) \<and>
    (2 :: byte) \<noteq> 0 \<and>
    ReadFull (peer [[1, 0]]) (unat (2 :: byte)) = (([1, 0], None), peer []) \<and>
    Write (peer []) [5, 0] = ((2, None), (peer [])\<lparr>outbox := [[5, 0]]\<rparr>) \<and>
    (0 :: byte) \<in> set [1, 0] \<and>
    outbox ((peer [])\<lparr>outbox := [[5, 0]]\<rparr>) = outbox (peer [[5, 2, 1, 0]]) @ [[5, 0]] \<and>
    greeting (peer [[5, 2, 1, 0]]) = Inr ((peer [])\<lparr>outbox := [[5, 0]]\<rparr>)) \<and>
   (ReadFull (peer [[5, 2, 1, 2]]) 2 = (([5, 2], None), peer [[1, 2]]) \<and>
    ReadFull (peer [[1, 2]]) (unat (2 :: byte)) = (([1, 2], None), peer []) \<and>
    (0 :: byte) \<notin> set [1, 2] \<and>
    clientLoop envDown (peer [[5, 2, 1, 2]]) = Some (NoAuthNotOffered, peer []) \<and>
    outbox (peer []) = outbox (peer [[5, 2, 1, 2]]))"
proof -
  have a1: "ReadFull (peer [[5, 2, 1, 0]]) 2 = (([5, 2], None), peer [[1, 0]])"
    by (simp add: ReadFull.simps Read_def peer_def)
  have a2: "(2 :: byte) \<noteq> 0" by simp
  have a3: "ReadFull (peer [[1, 0]]) (unat (2 :: byte)) = (([1, 0], None), peer [])"
    by (simp add: ReadFull.simps Read_def peer_def)
  have a4: "Write (peer []) [5, 0] = ((2, None), (peer [])\<lparr>outbox := [[5, 0]]\<rparr>)"
    by (simp add: Write_def peer_def)
  have b1: "ReadFull (peer [[5, 2, 1, 2]]) 2 = (([5, 2], None), peer [[1, 2]])"
    by (simp add: ReadFull.simps Read_def peer_def)
  have b3: "ReadFull (peer [[1, 2]]) (unat (2 :: byte)) = (([1, 2], None), peer [])"
    by (simp add: ReadFull.simps Read_def peer_def)
  have m0: "(0 :: byte) \<in> set [1, 0]" and m2: "(0 :: byte) \<notin> set [1, 2]"
    by simp_all
  note A = greeting_method_selection[OF a1 a2 a3 a4, of envDown]
  note B = greeting_method_selection[OF b1 a2 b3 a4, of envDown]
  from A m0 have A': "outbox ((peer [])\<lparr>outbox := [[5, 0]]\<rparr>) = outbox (peer [[5, 2, 1, 0]]) @ [[5, 0]]"
    and A'': "greeting (peer [[5, 2, 1, 0]]) = Inr ((peer [])\<lparr>outbox := [[5, 0]]\<rparr>)"
    by blast+
  from B m2 have B': "clientLoop envDown (peer [[5, 2, 1, 2]]) = Some (NoAuthNotOffered, peer [])"
    and B'': "outbox (peer []) = outbox (peer [[5, 2, 1, 2]])"
    by blast+
  show ?thesis
    using a1 a2 a3 a4 m0 A' A'' b1 b3 m2 B' B'' by blast
qed

section \<open>The request header\<close>

lemma initReply_eq:
  "initReply = [5, 0, 0, 0, 0, 0, 0, 0, 0, 0, 0, 0, 0, 0, 0, 0, 0, 0, 0, 0, 0, 0]"
  by (simp add: initReply_def eval_nat_numeral)

text \<open>The request stage, once the four header bytes have been read: the checks in the
  order of the source.\<close>

lemma request_eq:
  assumes "ReadFull c 4 = (([ver, cmd, rsv, atyp], None), c1)"
  shows "request E c =
    (if ver \<noteq> 5 then Inl (RequestVersionMismatch, c1)
     else if cmd \<noteq> 1 then Inl (CommandNotImplemented, snd (Write c1 [5, 7, 0, 0]))
     else if rsv \<noteq> 0 then Inl (ReservedNotZero, c1)
     else if atyp = 1 \<or> atyp = 4 then readIPAddress c1 atyp initReply
     else if atyp = 3 then readDomainAddress E c1 initReply
     else Inl (UnknownAddressType, snd (Write c1 [5, 8, 0, 0])))"
  using assms by (simp add: request_def filled_def initReply_eq split: prod.splits)

lemma clientLoop_request_Inl:
  "greeting client = Inr c \<Longrightarrow> request E c = Inl x \<Longrightarrow> clientLoop E client = Some x"
  by (simp add: clientLoop_def negotiate_def)

lemma Write_snd_outbox: "outbox (snd (Write c b)) = outbox c @ [b]"
  by (simp add: Write_outbox[OF surjective_pairing])

text \<open>
  Claim C7. After the greeting, let the four header bytes be read in full with version 5.
  \<^item> If the command is not 0x01, \<^verbatim>\<open>clientLoop\<close> calls \<^verbatim>\<open>Write\<close> with exactly
    \<open>[0x05, 0x07, 0x00, 0x00]\<close> and returns (the connection is closed).
  \<^item> If the command is 0x01, the reserved byte 0x00 and the address type none of 0x01,
    0x03, 0x04, it calls \<^verbatim>\<open>Write\<close> with exactly \<open>[0x05, 0x08, 0x00, 0x00]\<close> and returns.
  In both cases this is the only write after the method selection.
\<close>

theorem early_rejection_replies:
  assumes "greeting client = Inr c"
    and "ReadFull c 4 = (([5, cmd, rsv, atyp], None), c1)"
  shows "(cmd \<noteq> 1 \<longrightarrow>
            clientLoop E client = Some (CommandNotImplemented, snd (Write c1 [5, 7, 0, 0])) \<and>
            outbox (snd (Write c1 [5, 7, 0, 0])) = outbox c @ [[5, 7, 0, 0]]) \<and>
         (cmd = 1 \<and> rsv = 0 \<and> atyp \<noteq> 1 \<and> atyp \<noteq> 3 \<and> atyp \<noteq> 4 \<longrightarrow>
            clientLoop E client = Some (UnknownAddressType, snd (Write c1 [5, 8, 0, 0])) \<and>
            outbox (snd (Write c1 [5, 8, 0, 0])) = outbox c @ [[5, 8, 0, 0]])"
proof -
  have o: "outbox c1 = outbox c" using assms(2) by (rule ReadFull_outbox)
  have r7: "cmd \<noteq> 1 \<Longrightarrow> request E c = Inl (CommandNotImplemented, snd (Write c1 [5, 7, 0, 0]))"
    by (simp add: request_eq[OF assms(2)])
  have r8: "cmd = 1 \<and> rsv = 0 \<and> atyp \<noteq> 1 \<and> atyp \<noteq> 3 \<and> atyp \<noteq> 4 \<Longrightarrow>
      request E c = Inl (UnknownAddressType, snd (Write c1 [5, 8, 0, 0]))"
    by (simp add: request_eq[OF assms(2)])
  show ?thesis
    using clientLoop_request_Inl[OF assms(1) r7] clientLoop_request_Inl[OF assms(1) r8] o
    by (simp add: Write_snd_outbox)
qed

text \<open>The requests \<open>05 02 00 01\<close> (BIND) and \<open>05 01 00 09\<close> (address type 9), each after
  the greeting \<open>05 01 00\<close>.\<close>

theorem early_rejection_replies_witness:
  "(greeting (peer [[5, 1, 0], [5, 2, 0, 1]]) = Inr ((peer [[5, 2, 0, 1]])\<lparr>outbox := [[5, 0]]\<rparr>) \<and>
    ReadFull ((peer [[5, 2, 0, 1]])\<lparr>outbox := [[5, 0]]\<rparr>) 4 =
      (([5, 2, 0, 1], None), (peer [])\<lparr>outbox := [[5, 0]]\<rparr>) \<and>
    (2 :: byte) \<noteq> 1 \<and>
    clientLoop envDown (peer [[5, 1, 0], [5, 2, 0, 1]]) =
      Some (CommandNotImplemented, (peer [])\<lparr>outbox := [[5, 0], [5, 7, 0, 0]]\<rparr>)) \<and>
   (greeting (peer [[5, 1, 0], [5, 1, 0, 9]]) = Inr ((peer [[5, 1, 0, 9]])\<lparr>outbox := [[5, 0]]\<rparr>) \<and>
    ReadFull ((peer [[5, 1, 0, 9]])\<lparr>outbox := [[5, 0]]\<rparr>) 4 =
      (([5, 1, 0, 9], None), (peer [])\<lparr>outbox := [[5, 0]]\<rparr>) \<and>
    (9 :: byte) \<noteq> 1 \<and> (9 :: byte) \<noteq> 3 \<and> (9 :: byte) \<noteq> 4 \<and>
    clientLoop envDown (peer [[5, 1, 0], [5, 1, 0, 9]]) =
      Some (UnknownAddressType, (peer [])\<lparr>outbox := [[5, 0], [5, 8, 0, 0]]\<rparr>))"
proof -
  have g1: "greeting (peer [[5, 1, 0], [5, 2, 0, 1]]) = Inr ((peer [[5, 2, 0, 1]])\<lparr>outbox := [[5, 0]]\<rparr>)"
    by (simp add: greeting_def ReadFull.simps Read_def Write_def peer_def filled_def)
  have r1: "ReadFull ((peer [[5, 2, 0, 1]])\<lparr>outbox := [[5, 0]]\<rparr>) 4 =
      (([5, 2, 0, 1], None), (peer [])\<lparr>outbox := [[5, 0]]\<rparr>)"
    by (simp add: ReadFull.simps Read_def peer_def)
  have w1: "snd (Write ((peer [])\<lparr>outbox := [[5, 0]]\<rparr>) [5, 7, 0, 0]) =
      (peer [])\<lparr>outbox := [[5, 0], [5, 7, 0, 0]]\<rparr>"
    by (simp add: Write_def peer_def)
  have g2: "greeting (peer [[5, 1, 0], [5, 1, 0, 9]]) = Inr ((peer [[5, 1, 0, 9]])\<lparr>outbox := [[5, 0]]\<rparr>)"
    by (simp add: greeting_def ReadFull.simps Read_def Write_def peer_def filled_def)
  have r2: "ReadFull ((peer [[5, 1, 0, 9]])\<lparr>outbox := [[5, 0]]\<rparr>) 4 =
      (([5, 1, 0, 9], None), (peer [])\<lparr>outbox := [[5, 0]]\<rparr>)"
    by (simp add: ReadFull.simps Read_def peer_def)
  have w2: "snd (Write ((peer [])\<lparr>outbox := [[5, 0]]\<rparr>) [5, 8, 0, 0]) =
      (peer [])\<lparr>outbox := [[5, 0], [5, 8, 0, 0]]\<rparr>"
    by (simp add: Write_def peer_def)
  have n: "(2 :: byte) \<noteq> 1" "(9 :: byte) \<noteq> 1" "(9 :: byte) \<noteq> 3" "(9 :: byte) \<noteq> 4"
    by simp_all
  from early_rejection_replies[OF g1 r1, of envDown] n w1
  have A: "clientLoop envDown (peer [[5, 1, 0], [5, 2, 0, 1]]) =
      Some (CommandNotImplemented, (peer [])\<lparr>outbox := [[5, 0], [5, 7, 0, 0]]\<rparr>)"
    by simp
  from early_rejection_replies[OF g2 r2, of envDown] n w2
  have B: "clientLoop envDown (peer [[5, 1, 0], [5, 1, 0, 9]]) =
      Some (UnknownAddressType, (peer [])\<lparr>outbox := [[5, 0], [5, 8, 0, 0]]\<rparr>)"
    by simp
  show ?thesis using g1 r1 n A g2 r2 B by blast
qed

text \<open>
  Claim C4 says that a reserved byte other than 0x00 always ends in a protocol error with
  no reply on the wire, whatever the command field. The source checks the command (line
  99) before the reserved byte (line 105): the request \<open>05 02 01 01\<close>, whose reserved byte
  is 0x01, is answered with \<open>05 07 00 00\<close>.
\<close>

theorem reserved_nonzero_counterexample:
  "clientLoop envDown (peer [[5, 1, 0], [5, 2, 1, 1]]) =
     Some (CommandNotImplemented, (peer [])\<lparr>outbox := [[5, 0], [5, 7, 0, 0]]\<rparr>)"
  by (simp add: clientLoop_def negotiate_def greeting_def request_def ReadFull.simps Read_def
      Write_def peer_def filled_def initReply_eq)

text \<open>
  Claim C4, amended. After the greeting, let the four header bytes be read in full with a
  reserved byte that is not 0x00. If the version is not 5, or the version is 5 and the
  command is 0x01, \<^verbatim>\<open>clientLoop\<close> returns without writing a reply, whatever the address
  type. If the version is 5 and the command is not 0x01, the check of the command comes
  first: \<^verbatim>\<open>clientLoop\<close> calls \<^verbatim>\<open>Write\<close> with \<open>[0x05, 0x07, 0x00, 0x00]\<close> and returns.
\<close>

theorem reserved_checked_after_command:
  assumes "greeting client = Inr c"
    and "ReadFull c 4 = (([ver, cmd, rsv, atyp], None), c1)"
    and "rsv \<noteq> 0"
  shows "(ver \<noteq> 5 \<longrightarrow> clientLoop E client = Some (RequestVersionMismatch, c1)) \<and>
         (ver = 5 \<and> cmd = 1 \<longrightarrow> clientLoop E client = Some (ReservedNotZero, c1)) \<and>
         (ver = 5 \<and> cmd \<noteq> 1 \<longrightarrow>
            clientLoop E client = Some (CommandNotImplemented, snd (Write c1 [5, 7, 0, 0])) \<and>
            outbox (snd (Write c1 [5, 7, 0, 0])) = outbox c @ [[5, 7, 0, 0]]) \<and>
         outbox c1 = outbox c"
proof -
  have o: "outbox c1 = outbox c" using assms(2) by (rule ReadFull_outbox)
  have a: "ver \<noteq> 5 \<Longrightarrow> request E c = Inl (RequestVersionMismatch, c1)"
    by (simp add: request_eq[OF assms(2)])
  have b: "ver = 5 \<and> cmd = 1 \<Longrightarrow> request E c = Inl (ReservedNotZero, c1)"
    using assms(3) by (simp add: request_eq[OF assms(2)])
  have d: "ver = 5 \<and> cmd \<noteq> 1 \<Longrightarrow>
      request E c = Inl (CommandNotImplemented, snd (Write c1 [5, 7, 0, 0]))"
    by (simp add: request_eq[OF assms(2)])
  show ?thesis
    using clientLoop_request_Inl[OF assms(1) a] clientLoop_request_Inl[OF assms(1) b]
      clientLoop_request_Inl[OF assms(1) d] o
    by (simp add: Write_snd_outbox)
qed

text \<open>The requests \<open>05 01 01 01\<close>, \<open>04 01 01 01\<close> and \<open>05 02 01 01\<close>, each with the
  reserved byte 0x01.\<close>

theorem reserved_checked_after_command_witness:
  "(greeting (peer [[5, 1, 0], [5, 1, 1, 1]]) = Inr ((peer [[5, 1, 1, 1]])\<lparr>outbox := [[5, 0]]\<rparr>) \<and>
    ReadFull ((peer [[5, 1, 1, 1]])\<lparr>outbox := [[5, 0]]\<rparr>) 4 =
      (([5, 1, 1, 1], None), (peer [])\<lparr>outbox := [[5, 0]]\<rparr>) \<and>
    (1 :: byte) \<noteq> 0 \<and>
    clientLoop envDown (peer [[5, 1, 0], [5, 1, 1, 1]]) =
      Some (ReservedNotZero, (peer [])\<lparr>outbox := [[5, 0]]\<rparr>)) \<and>
   (greeting (peer [[5, 1, 0], [4, 1, 1, 1]]) = Inr ((peer [[4, 1, 1, 1]])\<lparr>outbox := [[5, 0]]\<rparr>) \<and>
    ReadFull ((peer [[4, 1, 1, 1]])\<lparr>outbox := [[5, 0]]\<rparr>) 4 =
      (([4, 1, 1, 1], None), (peer [])\<lparr>outbox := [[5, 0]]\<rparr>) \<and>
    (4 :: byte) \<noteq> 5 \<and>
    clientLoop envDown (peer [[5, 1, 0], [4, 1, 1, 1]]) =
      Some (RequestVersionMismatch, (peer [])\<lparr>outbox := [[5, 0]]\<rparr>)) \<and>
   (greeting (peer [[5, 1, 0], [5, 2, 1, 1]]) = Inr ((peer [[5, 2, 1, 1]])\<lparr>outbox := [[5, 0]]\<rparr>) \<and>
    ReadFull ((peer [[5, 2, 1, 1]])\<lparr>outbox := [[5, 0]]\<rparr>) 4 =
      (([5, 2, 1, 1], None), (peer [])\<lparr>outbox := [[5, 0]]\<rparr>) \<and>
    (2 :: byte) \<noteq> 1 \<and>
    clientLoop envDown (peer [[5, 1, 0], [5, 2, 1, 1]]) =
      Some (CommandNotImplemented,
            snd (Write ((peer [])\<lparr>outbox := [[5, 0]]\<rparr>) [5, 7, 0, 0])))"
proof -
  have g1: "greeting (peer [[5, 1, 0], [5, 1, 1, 1]]) = Inr ((peer [[5, 1, 1, 1]])\<lparr>outbox := [[5, 0]]\<rparr>)"
    by (simp add: greeting_def ReadFull.simps Read_def Write_def peer_def filled_def)
  have r1: "ReadFull ((peer [[5, 1, 1, 1]])\<lparr>outbox := [[5, 0]]\<rparr>) 4 =
      (([5, 1, 1, 1], None), (peer [])\<lparr>outbox := [[5, 0]]\<rparr>)"
    by (simp add: ReadFull.simps Read_def peer_def)
  have g2: "greeting (peer [[5, 1, 0], [4, 1, 1, 1]]) = Inr ((peer [[4, 1, 1, 1]])\<lparr>outbox := [[5, 0]]\<rparr>)"
    by (simp add: greeting_def ReadFull.simps Read_def Write_def peer_def filled_def)
  have r2: "ReadFull ((peer [[4, 1, 1, 1]])\<lparr>outbox := [[5, 0]]\<rparr>) 4 =
      (([4, 1, 1, 1], None), (peer [])\<lparr>outbox := [[5, 0]]\<rparr>)"
    by (simp add: ReadFull.simps Read_def peer_def)
  have g3: "greeting (peer [[5, 1, 0], [5, 2, 1, 1]]) = Inr ((peer [[5, 2, 1, 1]])\<lparr>outbox := [[5, 0]]\<rparr>)"
    by (simp add: greeting_def ReadFull.simps Read_def Write_def peer_def filled_def)
  have r3: "ReadFull ((peer [[5, 2, 1, 1]])\<lparr>outbox := [[5, 0]]\<rparr>) 4 =
      (([5, 2, 1, 1], None), (peer [])\<lparr>outbox := [[5, 0]]\<rparr>)"
    by (simp add: ReadFull.simps Read_def peer_def)
  have n: "(1 :: byte) \<noteq> 0" "(4 :: byte) \<noteq> 5" "(2 :: byte) \<noteq> 1"
    by simp_all
  from reserved_checked_after_command[OF g1 r1 n(1), of envDown]
  have A: "clientLoop envDown (peer [[5, 1, 0], [5, 1, 1, 1]]) =
      Some (ReservedNotZero, (peer [])\<lparr>outbox := [[5, 0]]\<rparr>)"
    by simp
  from reserved_checked_after_command[OF g2 r2 n(1), of envDown]
  have B: "clientLoop envDown (peer [[5, 1, 0], [4, 1, 1, 1]]) =
      Some (RequestVersionMismatch, (peer [])\<lparr>outbox := [[5, 0]]\<rparr>)"
    by simp
  from reserved_checked_after_command[OF g3 r3 n(1), of envDown]
  have C: "clientLoop envDown (peer [[5, 1, 0], [5, 2, 1, 1]]) =
      Some (CommandNotImplemented, snd (Write ((peer [])\<lparr>outbox := [[5, 0]]\<rparr>) [5, 7, 0, 0]))"
    by simp
  show ?thesis using g1 r1 n A g2 r2 B g3 r3 C by blast
qed

section \<open>Ports and the success reply\<close>

lemma portOf_eq: "portOf hi lo = uint hi * 256 + uint lo"
  by (simp add: portOf_def push_bit_eq_mult)

lemma portOf_range: "0 \<le> portOf hi lo \<and> portOf hi lo < 65536"
proof -
  have "uint hi < 256" "uint lo < 256" using uint_bounded[of hi] uint_bounded[of lo] by simp_all
  moreover have "0 \<le> uint hi" "0 \<le> uint lo" by simp_all
  ultimately show ?thesis unfolding portOf_eq by linarith
qed

lemma port_hi: "word_of_int (drop_bit 8 (portOf hi lo)) = hi"
proof -
  have "uint lo < 256" using uint_bounded[of lo] by simp
  then have "(uint hi * 256 + uint lo) div 256 = uint hi" by simp
  then show ?thesis by (simp add: portOf_eq drop_bit_eq_div)
qed

lemma port_lo: "word_of_int (portOf hi lo smod 256) = lo"
proof -
  have "uint lo < 256" using uint_bounded[of lo] by simp
  then have m: "(uint hi * 256 + uint lo) mod 256 = uint lo" by simp
  have "0 \<le> portOf hi lo" using portOf_range by simp
  then have "portOf hi lo smod 256 = portOf hi lo mod 256"
    by (simp add: signed_modulo_int_def sgn_if)
  then show ?thesis using m by (simp add: portOf_eq)
qed

lemma successReply_ip4:
  assumes "length ip = 4"
  shows "successReply (initReply[3 := 1]) \<lparr>IP = ip, Port = p\<rparr> =
           Some ([5, 0, 0, 1] @ ip @ [word_of_int (drop_bit 8 p), word_of_int (p smod 256)])"
proof -
  from assms obtain a b c d where "ip = [a, b, c, d]"
    by (auto simp: length_Suc_conv eval_nat_numeral)
  then show ?thesis
    by (simp add: successReply_def copySlice_def initReply_eq Let_def)
qed

lemma copySlice_fit:
  "length src = hi - lo \<Longrightarrow> lo \<le> hi \<Longrightarrow> hi \<le> length dst \<Longrightarrow>
   copySlice dst lo hi src = take lo dst @ src @ drop hi dst"
  by (simp add: copySlice_def)

lemma successReply_ip16:
  assumes "length ip = 16"
  shows "successReply (initReply[3 := 4]) \<lparr>IP = ip, Port = p\<rparr> =
           Some ([5, 0, 0, 4] @ ip @ [word_of_int (drop_bit 8 p), word_of_int (p smod 256)])"
proof -
  have r: "initReply[3 := 4] = [5, 0, 0, 4, 0, 0, 0, 0, 0, 0, 0, 0, 0, 0, 0, 0, 0, 0, 0, 0, 0, 0]"
    by (simp add: initReply_eq)
  have c: "copySlice ([5, 0, 0, 4, 0, 0, 0, 0, 0, 0, 0, 0, 0, 0, 0, 0, 0, 0, 0, 0, 0, 0]) 4 20 ip
            = [5, 0, 0, 4] @ ip @ [0, 0]"
    using assms by (simp add: copySlice_fit)
  have u: "([5, 0, 0, 4] @ ip @ [0, 0])[20 := x, 21 := y] = [5, 0, 0, 4] @ ip @ [x, y]" for x y :: byte
    using assms by (simp add: list_update_append)
  have t: "take 22 ([5, 0, 0, 4] @ ip @ [x, y]) = [5, 0, 0, 4] @ ip @ [x, y]" for x y :: byte
    using assms by simp
  show ?thesis
    unfolding successReply_def r using assms by (simp add: c u t Let_def del: append.simps)
qed

section \<open>Requests with an IP address\<close>

lemma filled_length: "length (filled n d) = n"
  by (simp add: filled_def)

lemma greeting_Inr_outbox:
  assumes "greeting client = Inr c"
  shows "outbox c = outbox client @ [[5, 0]]"
proof -
  obtain d e c1 where r1: "ReadFull client 2 = ((d, e), c1)"
    by (metis prod.exhaust)
  obtain a b where f: "filled 2 d = [a, b]"
    using filled_length[of 2 d] by (auto simp: length_Suc_conv eval_nat_numeral)
  obtain d2 e2 c2 where r2: "ReadFull c1 (unat b) = ((d2, e2), c2)"
    by (metis prod.exhaust)
  obtain w c3 where w: "Write c2 [5, 0] = (w, c3)"
    by (metis prod.exhaust)
  from assms r1 f r2 w have "c = c3" and "a = 5"
    by (auto simp: greeting_def Let_def split: if_splits prod.splits)
  moreover have "outbox c3 = outbox c2 @ [[5, 0]]" using w by (rule Write_outbox)
  moreover have "outbox c2 = outbox c1" using r2 by (rule ReadFull_outbox)
  moreover have "outbox c1 = outbox client" using r1 by (rule ReadFull_outbox)
  ultimately show ?thesis by simp
qed

lemma readIPAddress_v4:
  assumes "ReadFull c 6 = ((buf, None), c1)"
  shows "readIPAddress c 1 reply = Inr (c1, reply[3 := 1], decodeAddress 4 buf)"
proof -
  have "length buf = 6" using assms by (rule ReadFull_length)
  then have "filled 6 buf = buf" by (rule filled_id)
  then show ?thesis using assms by (simp add: readIPAddress_def)
qed

lemma readIPAddress_v6:
  assumes "ReadFull c 18 = ((buf, None), c1)"
  shows "readIPAddress c 4 reply = Inr (c1, reply[3 := 4], decodeAddress 16 buf)"
proof -
  have "length buf = 18" using assms by (rule ReadFull_length)
  then have "filled 18 buf = buf" by (rule filled_id)
  then show ?thesis using assms by (simp add: readIPAddress_def)
qed

lemma decodeAddress_v4:
  "decodeAddress 4 [a, b, c, d, hi, lo] = \<lparr>IP = [a, b, c, d], Port = portOf hi lo\<rparr>"
  by (simp add: decodeAddress_def)

text \<open>
  Claim C8. Take a request whose header is \<open>05 01 00 01\<close> (address type IPv4) and whose
  six remaining bytes \<open>a b c d hi lo\<close> are read in full. The request stage recovers
  exactly the address \<open>a.b.c.d\<close> and the port \<open>(hi << 8) + lo\<close>. The success reply
  built from that address and port is \<open>05 00 00 01 a b c d hi lo\<close>, and decoding its
  address part (the bytes after the first four) gives the same address and port again.
\<close>

theorem ipv4_request_round_trip:
  assumes "ReadFull c0 4 = (([5, 1, 0, 1], None), c)"
    and "ReadFull c 6 = (([a, b, c', d, hi, lo], None), c1)"
  shows "request E c0 =
           Inr (c1, initReply[3 := 1],
                \<lparr>IP = [a, b, c', d], Port = push_bit 8 (uint hi) + uint lo\<rparr>) \<and>
         successReply (initReply[3 := 1])
             \<lparr>IP = [a, b, c', d], Port = push_bit 8 (uint hi) + uint lo\<rparr> =
           Some [5, 0, 0, 1, a, b, c', d, hi, lo] \<and>
         decodeAddress 4 (drop 4 [5, 0, 0, 1, a, b, c', d, hi, lo]) =
           \<lparr>IP = [a, b, c', d], Port = push_bit 8 (uint hi) + uint lo\<rparr>"
proof -
  have p: "push_bit 8 (uint hi) + uint lo = portOf hi lo" by (simp add: portOf_def)
  have 1: "request E c0 =
      Inr (c1, initReply[3 := 1], \<lparr>IP = [a, b, c', d], Port = portOf hi lo\<rparr>)"
    by (simp add: request_eq[OF assms(1)] readIPAddress_v4[OF assms(2)] decodeAddress_v4)
  have 2: "successReply (initReply[3 := 1]) \<lparr>IP = [a, b, c', d], Port = portOf hi lo\<rparr> =
      Some [5, 0, 0, 1, a, b, c', d, hi, lo]"
    by (simp add: successReply_ip4 port_hi port_lo)
  have 3: "decodeAddress 4 (drop 4 [5, 0, 0, 1, a, b, c', d, hi, lo]) =
      \<lparr>IP = [a, b, c', d], Port = portOf hi lo\<rparr>"
    by (simp add: decodeAddress_v4)
  show ?thesis unfolding p using 1 2 3 by blast
qed

text \<open>The request \<open>05 01 00 01 01 02 03 04 1f 90\<close>: 1.2.3.4, port 8080.\<close>

theorem ipv4_request_round_trip_witness:
  "ReadFull (peer [[5, 1, 0, 1], [1, 2, 3, 4, 31, 144]]) 4 =
     (([5, 1, 0, 1], None), peer [[1, 2, 3, 4, 31, 144]]) \<and>
   ReadFull (peer [[1, 2, 3, 4, 31, 144]]) 6 = (([1, 2, 3, 4, 31, 144], None), peer []) \<and>
   request envUp (peer [[5, 1, 0, 1], [1, 2, 3, 4, 31, 144]]) =
     Inr (peer [], initReply[3 := 1], \<lparr>IP = [1, 2, 3, 4], Port = 8080\<rparr>) \<and>
   successReply (initReply[3 := 1]) \<lparr>IP = [1, 2, 3, 4], Port = 8080\<rparr> =
     Some [5, 0, 0, 1, 1, 2, 3, 4, 31, 144] \<and>
   decodeAddress 4 (drop 4 [5, 0, 0, 1, 1, 2, 3, 4, 31, 144]) =
     \<lparr>IP = [1, 2, 3, 4], Port = 8080\<rparr>"
proof -
  have h: "ReadFull (peer [[5, 1, 0, 1], [1, 2, 3, 4, 31, 144]]) 4 =
     (([5, 1, 0, 1], None), peer [[1, 2, 3, 4, 31, 144]])"
    by (simp add: ReadFull.simps Read_def peer_def)
  have r: "ReadFull (peer [[1, 2, 3, 4, 31, 144]]) 6 = (([1, 2, 3, 4, 31, 144], None), peer [])"
    by (simp add: ReadFull.simps Read_def peer_def)
  have p: "push_bit 8 (uint (31 :: byte)) + uint (144 :: byte) = 8080"
    by simp
  show ?thesis
    using h r ipv4_request_round_trip[OF h r, of envUp] unfolding p by blast
qed

section \<open>Requests with a domain name\<close>

text \<open>The domain branch, once the length byte and the host name have been read.\<close>

lemma readDomainAddress_eq:
  assumes "ReadFull c 1 = (([l], None), c1)"
    and "ReadFull c1 (unat l) = ((host, None), c2)"
  shows "readDomainAddress E c reply =
    (case LookupIP E host of
       None \<Rightarrow> Inl (FailedResolve, c2)
     | Some ips \<Rightarrow>
         if ips = [] then Inl (NoIPForHost, c2)
         else
           (case ReadFull c2 2 of
              ((d3, err3), c3) \<Rightarrow>
                if err3 \<noteq> None then Inl (FailedReadPort, c3)
                else
                  Inr (c3, reply[3 := of_nat (length (hd ips) div 4)],
                       \<lparr>IP = hd ips, Port = portOf (filled 2 d3 ! 0) (filled 2 d3 ! 1)\<rparr>)))"
proof -
  have "length host = unat l" using assms(2) by (rule ReadFull_length)
  then have "filled (unat l) host = host" by (rule filled_id)
  then show ?thesis
    using assms
    by (auto simp add: readDomainAddress_def filled_def hd_conv_nth Let_def
        split: option.splits prod.splits)
qed

lemma Read_unread: "Read c k = ((d, e), c') \<Longrightarrow> unread c = d @ unread c'"
  by (auto simp: Read_def unread_def split: list.splits if_splits prod.splits)

text \<open>\<^verbatim>\<open>ReadFull\<close> takes the bytes it returns from the front of what is unread.\<close>

lemma ReadFull_unread: "ReadFull c n = ((d, e), c') \<Longrightarrow> unread c = d @ unread c'"
proof (induction c n arbitrary: d e c' rule: ReadFull.induct)
  case (1 c n)
  show ?case
  proof (cases "n = 0")
    case True
    with "1.prems" show ?thesis by (simp add: ReadFull.simps)
  next
    case False
    obtain d1 e1 c1 where r: "Read c n = ((d1, e1), c1)"
      by (metis prod.exhaust)
    note u = Read_unread[OF r]
    show ?thesis
    proof (cases "n \<le> length d1 \<or> e1 \<noteq> None")
      case True
      with False r "1.prems" u show ?thesis
        by (auto simp add: ReadFull.simps split: if_splits)
    next
      case short: False
      obtain d2 e2 c2 where rf: "ReadFull c1 (n - length d1) = ((d2, e2), c2)"
        by (metis prod.exhaust)
      from False r short rf "1.prems" have "c' = c2" and "d = d1 @ d2"
        by (simp_all add: ReadFull.simps)
      moreover from short have a: "\<not> n \<le> length d1" and b: "\<not> e1 \<noteq> None"
        by auto
      note "1.IH"[OF False r[symmetric] refl a b rf]
      ultimately show ?thesis using u by simp
    qed
  qed
qed

text \<open>A request \<open>05 01 00 03\<close> whose length byte and host name have been read.\<close>

lemma domain_request_eq:
  assumes "ReadFull c 4 = (([5, 1, 0, 3], None), c1)"
    and "ReadFull c1 1 = (([l], None), c2)"
    and "ReadFull c2 (unat l) = ((host, None), c3)"
  shows "request E c =
    (case LookupIP E host of
       None \<Rightarrow> Inl (FailedResolve, c3)
     | Some ips \<Rightarrow>
         if ips = [] then Inl (NoIPForHost, c3)
         else
           (case ReadFull c3 2 of
              ((d3, err3), c4) \<Rightarrow>
                if err3 \<noteq> None then Inl (FailedReadPort, c4)
                else
                  Inr (c4, initReply[3 := of_nat (length (hd ips) div 4)],
                       \<lparr>IP = hd ips, Port = portOf (filled 2 d3 ! 0) (filled 2 d3 ! 1)\<rparr>)))"
  by (simp add: request_eq[OF assms(1)] readDomainAddress_eq[OF assms(2,3)])

text \<open>
  Claim C9. Take a domain-name request after the greeting: the header \<open>05 01 00 03\<close>, the
  length byte and the host name are read in full. If the lookup of the host name returns
  an error or no address, \<^verbatim>\<open>clientLoop\<close> returns (the connection is closed) and the only
  thing it ever wrote to the client is the method selection \<open>05 00\<close>: no reply to the
  request.
\<close>

theorem resolution_failure_sends_no_reply:
  assumes "greeting client = Inr c"
    and "ReadFull c 4 = (([5, 1, 0, 3], None), c1)"
    and "ReadFull c1 1 = (([l], None), c2)"
    and "ReadFull c2 (unat l) = ((host, None), c3)"
    and "LookupIP E host = None \<or> LookupIP E host = Some []"
  shows "clientLoop E client =
           Some (if LookupIP E host = None then FailedResolve else NoIPForHost, c3) \<and>
         outbox c3 = outbox client @ [[5, 0]]"
proof -
  have r: "request E c = Inl (if LookupIP E host = None then FailedResolve else NoIPForHost, c3)"
    using assms(5) by (auto simp add: domain_request_eq[OF assms(2,3,4)])
  have "outbox c3 = outbox c"
    using assms(2,3,4) by (simp add: ReadFull_outbox)
  then show ?thesis
    using clientLoop_request_Inl[OF assms(1) r] greeting_Inr_outbox[OF assms(1)] by simp
qed

text \<open>The request \<open>05 01 00 03 02 41 42 01 bb\<close> (host \<open>AB\<close>, port 443), with a lookup
  that returns an error and with one that returns no address.\<close>

theorem resolution_failure_sends_no_reply_witness:
  "(greeting (peer [[5, 1, 0], [5, 1, 0, 3, 2, 65, 66, 1, 187]]) =
      Inr ((peer [[5, 1, 0, 3, 2, 65, 66, 1, 187]])\<lparr>outbox := [[5, 0]]\<rparr>) \<and>
    ReadFull ((peer [[5, 1, 0, 3, 2, 65, 66, 1, 187]])\<lparr>outbox := [[5, 0]]\<rparr>) 4 =
      (([5, 1, 0, 3], None), (peer [[2, 65, 66, 1, 187]])\<lparr>outbox := [[5, 0]]\<rparr>) \<and>
    ReadFull ((peer [[2, 65, 66, 1, 187]])\<lparr>outbox := [[5, 0]]\<rparr>) 1 =
      (([2], None), (peer [[65, 66, 1, 187]])\<lparr>outbox := [[5, 0]]\<rparr>) \<and>
    ReadFull ((peer [[65, 66, 1, 187]])\<lparr>outbox := [[5, 0]]\<rparr>) (unat (2 :: byte)) =
      (([65, 66], None), (peer [[1, 187]])\<lparr>outbox := [[5, 0]]\<rparr>)) \<and>
   (LookupIP envDown [65, 66] = None \<and>
    clientLoop envDown (peer [[5, 1, 0], [5, 1, 0, 3, 2, 65, 66, 1, 187]]) =
      Some (FailedResolve, (peer [[1, 187]])\<lparr>outbox := [[5, 0]]\<rparr>)) \<and>
   (LookupIP envEmpty [65, 66] = Some [] \<and>
    clientLoop envEmpty (peer [[5, 1, 0], [5, 1, 0, 3, 2, 65, 66, 1, 187]]) =
      Some (NoIPForHost, (peer [[1, 187]])\<lparr>outbox := [[5, 0]]\<rparr>)) \<and>
   outbox ((peer [[1, 187]])\<lparr>outbox := [[5, 0]]\<rparr>) =
     outbox (peer [[5, 1, 0], [5, 1, 0, 3, 2, 65, 66, 1, 187]]) @ [[5, 0]]"
proof -
  have g: "greeting (peer [[5, 1, 0], [5, 1, 0, 3, 2, 65, 66, 1, 187]]) =
     Inr ((peer [[5, 1, 0, 3, 2, 65, 66, 1, 187]])\<lparr>outbox := [[5, 0]]\<rparr>)"
    by (simp add: greeting_def ReadFull.simps Read_def Write_def peer_def filled_def)
  have r1: "ReadFull ((peer [[5, 1, 0, 3, 2, 65, 66, 1, 187]])\<lparr>outbox := [[5, 0]]\<rparr>) 4 =
     (([5, 1, 0, 3], None), (peer [[2, 65, 66, 1, 187]])\<lparr>outbox := [[5, 0]]\<rparr>)"
    by (simp add: ReadFull.simps Read_def peer_def)
  have r2: "ReadFull ((peer [[2, 65, 66, 1, 187]])\<lparr>outbox := [[5, 0]]\<rparr>) 1 =
     (([2], None), (peer [[65, 66, 1, 187]])\<lparr>outbox := [[5, 0]]\<rparr>)"
    by (simp add: ReadFull.simps Read_def peer_def)
  have r3: "ReadFull ((peer [[65, 66, 1, 187]])\<lparr>outbox := [[5, 0]]\<rparr>) (unat (2 :: byte)) =
     (([65, 66], None), (peer [[1, 187]])\<lparr>outbox := [[5, 0]]\<rparr>)"
    by (simp add: ReadFull.simps Read_def peer_def)
  have l1: "LookupIP envDown [65, 66] = None"
    by (simp add: envDown_def)
  have l2: "LookupIP envEmpty [65, 66] = Some []"
    by (simp add: envEmpty_def)
  from l1 have l1': "LookupIP envDown [65, 66] = None \<or> LookupIP envDown [65, 66] = Some []" ..
  from l2 have l2': "LookupIP envEmpty [65, 66] = None \<or> LookupIP envEmpty [65, 66] = Some []" ..
  show ?thesis
    using g r1 r2 r3 l1 l2
      resolution_failure_sends_no_reply[OF g r1 r2 r3 l1']
      resolution_failure_sends_no_reply[OF g r1 r2 r3 l2']
    by simp
qed

text \<open>
  Claim C10. Take a domain-name request after the greeting: the header \<open>05 01 00 03\<close>, the
  length byte \<open>l\<close> and the \<open>l\<close> bytes of the host name are read in full, so \<open>l + 1\<close> of the
  bytes after the header are consumed and \<open>c3\<close> is the client socket at that point.
  \<^item> If the lookup of the host name fails or returns no address, \<^verbatim>\<open>clientLoop\<close> returns
    with the socket still \<open>c3\<close>: nothing more was read, and what followed the host name
    (the two port bytes) is still unread.
  \<^item> If the lookup returns an address, the two port bytes are read next, from \<open>c3\<close>.
\<close>

theorem lookup_before_port_read:
  assumes "greeting client = Inr c"
    and "ReadFull c 4 = (([5, 1, 0, 3], None), c1)"
    and "ReadFull c1 1 = (([l], None), c2)"
    and "ReadFull c2 (unat l) = ((host, None), c3)"
  shows "length (l # host) = unat l + 1 \<and>
         unread c1 = (l # host) @ unread c3 \<and>
         (LookupIP E host = None \<or> LookupIP E host = Some [] \<longrightarrow>
            clientLoop E client =
              Some (if LookupIP E host = None then FailedResolve else NoIPForHost, c3)) \<and>
         (LookupIP E host = Some ips \<and> ips \<noteq> [] \<longrightarrow>
            request E c =
              (case ReadFull c3 2 of
                 ((d3, err3), c4) \<Rightarrow>
                   if err3 \<noteq> None then Inl (FailedReadPort, c4)
                   else
                     Inr (c4, initReply[3 := of_nat (length (hd ips) div 4)],
                          \<lparr>IP = hd ips, Port = portOf (filled 2 d3 ! 0) (filled 2 d3 ! 1)\<rparr>)))"
proof -
  have len: "length host = unat l" using assms(4) by (rule ReadFull_length)
  have u: "unread c1 = (l # host) @ unread c3"
    using ReadFull_unread[OF assms(3)] ReadFull_unread[OF assms(4)] by simp
  have f: "LookupIP E host = None \<or> LookupIP E host = Some [] \<Longrightarrow>
      request E c = Inl (if LookupIP E host = None then FailedResolve else NoIPForHost, c3)"
    by (auto simp add: domain_request_eq[OF assms(2,3,4)])
  have s: "LookupIP E host = Some ips \<and> ips \<noteq> [] \<Longrightarrow>
      request E c =
        (case ReadFull c3 2 of
           ((d3, err3), c4) \<Rightarrow>
             if err3 \<noteq> None then Inl (FailedReadPort, c4)
             else
               Inr (c4, initReply[3 := of_nat (length (hd ips) div 4)],
                    \<lparr>IP = hd ips, Port = portOf (filled 2 d3 ! 0) (filled 2 d3 ! 1)\<rparr>))"
    by (simp add: domain_request_eq[OF assms(2,3,4)])
  show ?thesis
    using len u clientLoop_request_Inl[OF assms(1) f] s by simp
qed

text \<open>The request \<open>05 01 00 03 02 41 42 01 bb\<close> (host \<open>AB\<close>, port 443), with a lookup
  that fails and with one that succeeds.\<close>

theorem lookup_before_port_read_witness:
  "(greeting (peer [[5, 1, 0], [5, 1, 0, 3, 2, 65, 66, 1, 187]]) =
      Inr ((peer [[5, 1, 0, 3, 2, 65, 66, 1, 187]])\<lparr>outbox := [[5, 0]]\<rparr>) \<and>
    ReadFull ((peer [[5, 1, 0, 3, 2, 65, 66, 1, 187]])\<lparr>outbox := [[5, 0]]\<rparr>) 4 =
      (([5, 1, 0, 3], None), (peer [[2, 65, 66, 1, 187]])\<lparr>outbox := [[5, 0]]\<rparr>) \<and>
    ReadFull ((peer [[2, 65, 66, 1, 187]])\<lparr>outbox := [[5, 0]]\<rparr>) 1 =
      (([2], None), (peer [[65, 66, 1, 187]])\<lparr>outbox := [[5, 0]]\<rparr>) \<and>
    ReadFull ((peer [[65, 66, 1, 187]])\<lparr>outbox := [[5, 0]]\<rparr>) (unat (2 :: byte)) =
      (([65, 66], None), (peer [[1, 187]])\<lparr>outbox := [[5, 0]]\<rparr>)) \<and>
   (LookupIP envDown [65, 66] = None \<and>
    clientLoop envDown (peer [[5, 1, 0], [5, 1, 0, 3, 2, 65, 66, 1, 187]]) =
      Some (FailedResolve, (peer [[1, 187]])\<lparr>outbox := [[5, 0]]\<rparr>) \<and>
    unread ((peer [[1, 187]])\<lparr>outbox := [[5, 0]]\<rparr>) = [1, 187]) \<and>
   (LookupIP envUp [65, 66] = Some [[93, 184, 216, 34]] \<and>
    request envUp ((peer [[5, 1, 0, 3, 2, 65, 66, 1, 187]])\<lparr>outbox := [[5, 0]]\<rparr>) =
      Inr ((peer [])\<lparr>outbox := [[5, 0]]\<rparr>, initReply[3 := 1],
           \<lparr>IP = [93, 184, 216, 34], Port = 443\<rparr>))"
proof -
  have g: "greeting (peer [[5, 1, 0], [5, 1, 0, 3, 2, 65, 66, 1, 187]]) =
     Inr ((peer [[5, 1, 0, 3, 2, 65, 66, 1, 187]])\<lparr>outbox := [[5, 0]]\<rparr>)"
    by (simp add: greeting_def ReadFull.simps Read_def Write_def peer_def filled_def)
  have r1: "ReadFull ((peer [[5, 1, 0, 3, 2, 65, 66, 1, 187]])\<lparr>outbox := [[5, 0]]\<rparr>) 4 =
     (([5, 1, 0, 3], None), (peer [[2, 65, 66, 1, 187]])\<lparr>outbox := [[5, 0]]\<rparr>)"
    by (simp add: ReadFull.simps Read_def peer_def)
  have r2: "ReadFull ((peer [[2, 65, 66, 1, 187]])\<lparr>outbox := [[5, 0]]\<rparr>) 1 =
     (([2], None), (peer [[65, 66, 1, 187]])\<lparr>outbox := [[5, 0]]\<rparr>)"
    by (simp add: ReadFull.simps Read_def peer_def)
  have r3: "ReadFull ((peer [[65, 66, 1, 187]])\<lparr>outbox := [[5, 0]]\<rparr>) (unat (2 :: byte)) =
     (([65, 66], None), (peer [[1, 187]])\<lparr>outbox := [[5, 0]]\<rparr>)"
    by (simp add: ReadFull.simps Read_def peer_def)
  have r4: "ReadFull ((peer [[1, 187]])\<lparr>outbox := [[5, 0]]\<rparr>) 2 =
     (([1, 187], None), (peer [])\<lparr>outbox := [[5, 0]]\<rparr>)"
    by (simp add: ReadFull.simps Read_def peer_def)
  have l1: "LookupIP envDown [65, 66] = None"
    by (simp add: envDown_def)
  have l2: "LookupIP envUp [65, 66] = Some [[93, 184, 216, 34]]"
    by (simp add: envUp_def)
  have u: "unread ((peer [[1, 187]])\<lparr>outbox := [[5, 0]]\<rparr>) = [1, 187]"
    by (simp add: unread_def peer_def)
  have p: "portOf 1 187 = 443"
    by (simp add: portOf_def)
  from lookup_before_port_read[OF g r1 r2 r3, of envDown] l1
  have A: "clientLoop envDown (peer [[5, 1, 0], [5, 1, 0, 3, 2, 65, 66, 1, 187]]) =
      Some (FailedResolve, (peer [[1, 187]])\<lparr>outbox := [[5, 0]]\<rparr>)"
    by simp
  from lookup_before_port_read[OF g r1 r2 r3, of envUp "[[93, 184, 216, 34]]"] l2 r4 p
  have B: "request envUp ((peer [[5, 1, 0, 3, 2, 65, 66, 1, 187]])\<lparr>outbox := [[5, 0]]\<rparr>) =
      Inr ((peer [])\<lparr>outbox := [[5, 0]]\<rparr>, initReply[3 := 1],
           \<lparr>IP = [93, 184, 216, 34], Port = 443\<rparr>)"
    by (simp add: filled_def)
  show ?thesis
    using g r1 r2 r3 l1 A u l2 B by blast
qed

lemma negotiate_request_Inr:
  "greeting client = Inr c \<Longrightarrow> request E c = Inr (c2, reply, a) \<Longrightarrow>
   negotiate E client = connect E c2 reply a"
  by (simp add: negotiate_def)

text \<open>
  Claim C5 says that the address-type byte of the reply is the family of the first
  resolved address: 0x01 for an IPv4 address. The source stores \<^verbatim>\<open>len(ips[0]) / 4\<close>
  (line 149). When the lookup returns the IPv4 address 9.9.9.9 in its 16-byte form, the
  byte is 0x04 and the success reply is \<open>05 00 00 04\<close>, the sixteen bytes, and the port.
\<close>

theorem mapped_ipv4_counterexample:
  "LookupIP envUpMapped [65, 66] = Some [[0, 0, 0, 0, 0, 0, 0, 0, 0, 0, 255, 255, 9, 9, 9, 9]] \<and>
   To4 [0, 0, 0, 0, 0, 0, 0, 0, 0, 0, 255, 255, 9, 9, 9, 9] = Some [9, 9, 9, 9] \<and>
   negotiate envUpMapped (peer [[5, 1, 0], [5, 1, 0, 3, 2, 65, 66, 1, 187]]) =
     Inr ((peer [])\<lparr>outbox :=
            [[5, 0], [5, 0, 0, 4, 0, 0, 0, 0, 0, 0, 0, 0, 0, 0, 255, 255, 9, 9, 9, 9, 1, 187]]\<rparr>,
          upstream)"
proof -
  have l: "LookupIP envUpMapped [65, 66] =
      Some [[0, 0, 0, 0, 0, 0, 0, 0, 0, 0, 255, 255, 9, 9, 9, 9]]"
    by (simp add: envUpMapped_def)
  have t: "To4 [0, 0, 0, 0, 0, 0, 0, 0, 0, 0, 255, 255, 9, 9, 9, 9] = Some [9, 9, 9, 9]"
    by (simp add: To4_def eval_nat_numeral)
  have g: "greeting (peer [[5, 1, 0], [5, 1, 0, 3, 2, 65, 66, 1, 187]]) =
     Inr ((peer [[5, 1, 0, 3, 2, 65, 66, 1, 187]])\<lparr>outbox := [[5, 0]]\<rparr>)"
    by (simp add: greeting_def ReadFull.simps Read_def Write_def peer_def filled_def)
  have r1: "ReadFull ((peer [[5, 1, 0, 3, 2, 65, 66, 1, 187]])\<lparr>outbox := [[5, 0]]\<rparr>) 4 =
     (([5, 1, 0, 3], None), (peer [[2, 65, 66, 1, 187]])\<lparr>outbox := [[5, 0]]\<rparr>)"
    by (simp add: ReadFull.simps Read_def peer_def)
  have r2: "ReadFull ((peer [[2, 65, 66, 1, 187]])\<lparr>outbox := [[5, 0]]\<rparr>) 1 =
     (([2], None), (peer [[65, 66, 1, 187]])\<lparr>outbox := [[5, 0]]\<rparr>)"
    by (simp add: ReadFull.simps Read_def peer_def)
  have r3: "ReadFull ((peer [[65, 66, 1, 187]])\<lparr>outbox := [[5, 0]]\<rparr>) (unat (2 :: byte)) =
     (([65, 66], None), (peer [[1, 187]])\<lparr>outbox := [[5, 0]]\<rparr>)"
    by (simp add: ReadFull.simps Read_def peer_def)
  have r4: "ReadFull ((peer [[1, 187]])\<lparr>outbox := [[5, 0]]\<rparr>) 2 =
     (([1, 187], None), (peer [])\<lparr>outbox := [[5, 0]]\<rparr>)"
    by (simp add: ReadFull.simps Read_def peer_def)
  have q: "request envUpMapped ((peer [[5, 1, 0, 3, 2, 65, 66, 1, 187]])\<lparr>outbox := [[5, 0]]\<rparr>) =
      Inr ((peer [])\<lparr>outbox := [[5, 0]]\<rparr>, initReply[3 := 4],
           \<lparr>IP = [0, 0, 0, 0, 0, 0, 0, 0, 0, 0, 255, 255, 9, 9, 9, 9], Port = portOf 1 187\<rparr>)"
    by (simp add: domain_request_eq[OF r1 r2 r3] l r4 filled_def)
  have s: "successReply (initReply[3 := 4])
      \<lparr>IP = [0, 0, 0, 0, 0, 0, 0, 0, 0, 0, 255, 255, 9, 9, 9, 9], Port = portOf 1 187\<rparr> =
      Some [5, 0, 0, 4, 0, 0, 0, 0, 0, 0, 0, 0, 0, 0, 255, 255, 9, 9, 9, 9, 1, 187]"
    by (simp add: successReply_ip16 port_hi port_lo)
  have d: "DialTCP envUpMapped a = Some upstream" for a
    by (simp add: envUpMapped_def)
  have n: "negotiate envUpMapped (peer [[5, 1, 0], [5, 1, 0, 3, 2, 65, 66, 1, 187]]) =
     Inr ((peer [])\<lparr>outbox :=
            [[5, 0], [5, 0, 0, 4, 0, 0, 0, 0, 0, 0, 0, 0, 0, 0, 255, 255, 9, 9, 9, 9, 1, 187]]\<rparr>,
          upstream)"
    unfolding negotiate_request_Inr[OF g q]
    by (simp add: connect_def d s Write_def peer_def)
  show ?thesis using l t n by blast
qed

text \<open>
  Claim C5, amended. Take a domain-name request after the greeting, read in full (header
  \<open>05 01 00 03\<close>, length byte, host name, port bytes \<open>hi lo\<close>), whose lookup returns the
  non-empty list \<open>ips\<close>. The address \<^verbatim>\<open>clientLoop\<close> goes on with (the one it dials) is the
  first of the list, \<open>hd ips\<close>, and the byte at index 3 of the reply array is the length of
  that address divided by 4. So for an address held in 4 bytes both replies that can
  follow carry the address type 0x01: the reply after a failed dial is
  \<open>05 05 00 01 00 00\<close> and the success reply is \<open>05 00 00 01\<close>, the address, \<open>hi lo\<close>. For
  an address held in 16 bytes, an IPv6 address or an IPv4 address in the 16-byte form, both
  carry 0x04.
\<close>

theorem domain_reply_address_type:
  assumes "greeting client = Inr c"
    and "ReadFull c 4 = (([5, 1, 0, 3], None), c1)"
    and "ReadFull c1 1 = (([l], None), c2)"
    and "ReadFull c2 (unat l) = ((host, None), c3)"
    and "LookupIP E host = Some ips"
    and "ips \<noteq> []"
    and "ReadFull c3 2 = (([hi, lo], None), c4)"
  shows "negotiate E client =
           connect E c4 (initReply[3 := of_nat (length (hd ips) div 4)])
             \<lparr>IP = hd ips, Port = portOf hi lo\<rparr> \<and>
         (length (hd ips) = 4 \<longrightarrow>
            take 6 ((initReply[3 := of_nat (length (hd ips) div 4)])[1 := 5]) =
              [5, 5, 0, 1, 0, 0] \<and>
            successReply (initReply[3 := of_nat (length (hd ips) div 4)])
                \<lparr>IP = hd ips, Port = portOf hi lo\<rparr> =
              Some ([5, 0, 0, 1] @ hd ips @ [hi, lo])) \<and>
         (length (hd ips) = 16 \<longrightarrow>
            take 6 ((initReply[3 := of_nat (length (hd ips) div 4)])[1 := 5]) =
              [5, 5, 0, 4, 0, 0] \<and>
            successReply (initReply[3 := of_nat (length (hd ips) div 4)])
                \<lparr>IP = hd ips, Port = portOf hi lo\<rparr> =
              Some ([5, 0, 0, 4] @ hd ips @ [hi, lo]))"
proof -
  have r: "request E c =
      Inr (c4, initReply[3 := of_nat (length (hd ips) div 4)],
           \<lparr>IP = hd ips, Port = portOf hi lo\<rparr>)"
    using assms(5,6,7) by (simp add: domain_request_eq[OF assms(2,3,4)] filled_def)
  have n: "negotiate E client =
      connect E c4 (initReply[3 := of_nat (length (hd ips) div 4)])
        \<lparr>IP = hd ips, Port = portOf hi lo\<rparr>"
    using assms(1) r by (rule negotiate_request_Inr)
  have v4: "successReply (initReply[3 := 1]) \<lparr>IP = hd ips, Port = portOf hi lo\<rparr> =
      Some ([5, 0, 0, 1] @ hd ips @ [hi, lo])" if "length (hd ips) = 4"
    using successReply_ip4[OF that] by (simp add: port_hi port_lo)
  have v6: "successReply (initReply[3 := 4]) \<lparr>IP = hd ips, Port = portOf hi lo\<rparr> =
      Some ([5, 0, 0, 4] @ hd ips @ [hi, lo])" if "length (hd ips) = 16"
    using successReply_ip16[OF that] by (simp add: port_hi port_lo)
  show ?thesis
    using n v4 v6 by (simp add: initReply_eq)
qed


text \<open>The request \<open>05 01 00 03 02 41 42 01 bb\<close>, resolved to 93.184.216.34 and to
  2001:db8::1.\<close>

theorem domain_reply_address_type_witness:
  "(greeting (peer [[5, 1, 0], [5, 1, 0, 3, 2, 65, 66, 1, 187]]) =
      Inr ((peer [[5, 1, 0, 3, 2, 65, 66, 1, 187]])\<lparr>outbox := [[5, 0]]\<rparr>) \<and>
    ReadFull ((peer [[5, 1, 0, 3, 2, 65, 66, 1, 187]])\<lparr>outbox := [[5, 0]]\<rparr>) 4 =
      (([5, 1, 0, 3], None), (peer [[2, 65, 66, 1, 187]])\<lparr>outbox := [[5, 0]]\<rparr>) \<and>
    ReadFull ((peer [[2, 65, 66, 1, 187]])\<lparr>outbox := [[5, 0]]\<rparr>) 1 =
      (([2], None), (peer [[65, 66, 1, 187]])\<lparr>outbox := [[5, 0]]\<rparr>) \<and>
    ReadFull ((peer [[65, 66, 1, 187]])\<lparr>outbox := [[5, 0]]\<rparr>) (unat (2 :: byte)) =
      (([65, 66], None), (peer [[1, 187]])\<lparr>outbox := [[5, 0]]\<rparr>) \<and>
    ReadFull ((peer [[1, 187]])\<lparr>outbox := [[5, 0]]\<rparr>) 2 =
      (([1, 187], None), (peer [])\<lparr>outbox := [[5, 0]]\<rparr>)) \<and>
   (LookupIP envUp [65, 66] = Some [[93, 184, 216, 34]] \<and>
    length (hd [[93, 184, 216, 34 :: byte]]) = 4 \<and>
    negotiate envUp (peer [[5, 1, 0], [5, 1, 0, 3, 2, 65, 66, 1, 187]]) =
      Inr ((peer [])\<lparr>outbox := [[5, 0], [5, 0, 0, 1, 93, 184, 216, 34, 1, 187]]\<rparr>, upstream)) \<and>
   (LookupIP envUp6 [65, 66] = Some [[32, 1, 13, 184, 0, 0, 0, 0, 0, 0, 0, 0, 0, 0, 0, 1]] \<and>
    length (hd [[32, 1, 13, 184, 0, 0, 0, 0, 0, 0, 0, 0, 0, 0, 0, 1 :: byte]]) = 16 \<and>
    negotiate envUp6 (peer [[5, 1, 0], [5, 1, 0, 3, 2, 65, 66, 1, 187]]) =
      Inr ((peer [])\<lparr>outbox :=
             [[5, 0], [5, 0, 0, 4, 32, 1, 13, 184, 0, 0, 0, 0, 0, 0, 0, 0, 0, 0, 0, 1, 1, 187]]\<rparr>,
           upstream))"
proof -
  have g: "greeting (peer [[5, 1, 0], [5, 1, 0, 3, 2, 65, 66, 1, 187]]) =
     Inr ((peer [[5, 1, 0, 3, 2, 65, 66, 1, 187]])\<lparr>outbox := [[5, 0]]\<rparr>)"
    by (simp add: greeting_def ReadFull.simps Read_def Write_def peer_def filled_def)
  have r1: "ReadFull ((peer [[5, 1, 0, 3, 2, 65, 66, 1, 187]])\<lparr>outbox := [[5, 0]]\<rparr>) 4 =
     (([5, 1, 0, 3], None), (peer [[2, 65, 66, 1, 187]])\<lparr>outbox := [[5, 0]]\<rparr>)"
    by (simp add: ReadFull.simps Read_def peer_def)
  have r2: "ReadFull ((peer [[2, 65, 66, 1, 187]])\<lparr>outbox := [[5, 0]]\<rparr>) 1 =
     (([2], None), (peer [[65, 66, 1, 187]])\<lparr>outbox := [[5, 0]]\<rparr>)"
    by (simp add: ReadFull.simps Read_def peer_def)
  have r3: "ReadFull ((peer [[65, 66, 1, 187]])\<lparr>outbox := [[5, 0]]\<rparr>) (unat (2 :: byte)) =
     (([65, 66], None), (peer [[1, 187]])\<lparr>outbox := [[5, 0]]\<rparr>)"
    by (simp add: ReadFull.simps Read_def peer_def)
  have r4: "ReadFull ((peer [[1, 187]])\<lparr>outbox := [[5, 0]]\<rparr>) 2 =
     (([1, 187], None), (peer [])\<lparr>outbox := [[5, 0]]\<rparr>)"
    by (simp add: ReadFull.simps Read_def peer_def)
  have l4: "LookupIP envUp [65, 66] = Some [[93, 184, 216, 34]]"
    by (simp add: envUp_def)
  have l6: "LookupIP envUp6 [65, 66] = Some [[32, 1, 13, 184, 0, 0, 0, 0, 0, 0, 0, 0, 0, 0, 0, 1]]"
    by (simp add: envUp6_def)
  have n4: "[[93, 184, 216, 34 :: byte]] \<noteq> []"
    and n6: "[[32, 1, 13, 184, 0, 0, 0, 0, 0, 0, 0, 0, 0, 0, 0, 1 :: byte]] \<noteq> []"
    by simp_all
  have len4: "length (hd [[93, 184, 216, 34 :: byte]]) = 4"
    and len6: "length (hd [[32, 1, 13, 184, 0, 0, 0, 0, 0, 0, 0, 0, 0, 0, 0, 1 :: byte]]) = 16"
    by simp_all
  have d4: "DialTCP envUp a = Some upstream" and d6: "DialTCP envUp6 a = Some upstream" for a
    by (simp_all add: envUp_def envUp6_def)
  from domain_reply_address_type[OF g r1 r2 r3 l4 n4 r4] len4
  have A: "negotiate envUp (peer [[5, 1, 0], [5, 1, 0, 3, 2, 65, 66, 1, 187]]) =
      Inr ((peer [])\<lparr>outbox := [[5, 0], [5, 0, 0, 1, 93, 184, 216, 34, 1, 187]]\<rparr>, upstream)"
    by (simp add: connect_def d4 Write_def peer_def)
  from domain_reply_address_type[OF g r1 r2 r3 l6 n6 r4] len6
  have B: "negotiate envUp6 (peer [[5, 1, 0], [5, 1, 0, 3, 2, 65, 66, 1, 187]]) =
      Inr ((peer [])\<lparr>outbox :=
             [[5, 0], [5, 0, 0, 4, 32, 1, 13, 184, 0, 0, 0, 0, 0, 0, 0, 0, 0, 0, 0, 1, 1, 187]]\<rparr>,
           upstream)"
    by (simp add: connect_def d6 Write_def peer_def)
  show ?thesis
    using g r1 r2 r3 r4 l4 len4 A l6 len6 B by blast
qed

section \<open>Dial and reply\<close>

lemma decodeAddress_length:
  "unat ipLen \<le> length buf \<Longrightarrow> length (IP (decodeAddress ipLen buf)) = unat ipLen"
  by (simp add: decodeAddress_def)

text \<open>What the request stage hands on when it does not return.\<close>

lemma request_Inr:
  assumes "ReadFull c 4 = (([ver, cmd, rsv, atyp], None), c1)"
    and "request E c = Inr (c2, reply, addr)"
  shows "ver = 5 \<and> cmd = 1 \<and> rsv = 0 \<and> (atyp = 1 \<or> atyp = 3 \<or> atyp = 4) \<and>
         (atyp \<noteq> 3 \<longrightarrow> reply = initReply[3 := atyp] \<and> length (IP addr) = 4 * unat atyp) \<and>
         (atyp = 3 \<longrightarrow> reply = initReply[3 := of_nat (length (IP addr) div 4)])"
proof -
  note e = request_eq[OF assms(1), of E]
  from assms(2) e have v: "ver = 5" "cmd = 1" "rsv = 0" "atyp = 1 \<or> atyp = 3 \<or> atyp = 4"
    by (auto split: if_splits)
  have ip: "reply = initReply[3 := atyp] \<and> length (IP addr) = 4 * unat atyp" if "atyp \<noteq> 3"
  proof -
    from that v have a: "atyp = 1 \<or> atyp = 4" by simp
    with assms(2) e v have r: "readIPAddress c1 atyp initReply = Inr (c2, reply, addr)" by simp
    obtain d err c' where rf: "ReadFull c1 (unat (4 * atyp + 2)) = ((d, err), c')"
      by (metis prod.exhaust)
    from r rf have "reply = initReply[3 := atyp]"
      and ad: "addr = decodeAddress (4 * atyp) (filled (unat (4 * atyp + 2)) d)"
      by (auto simp: readIPAddress_def Let_def split: if_splits)
    moreover have "unat (4 * atyp) \<le> length (filled (unat (4 * atyp + 2)) d)"
      using a by (auto simp: filled_length)
    then have "length (IP addr) = unat (4 * atyp)"
      unfolding ad by (rule decodeAddress_length)
    moreover have "unat (4 * atyp) = 4 * unat atyp" using a by auto
    ultimately show ?thesis by simp
  qed
  have dom: "reply = initReply[3 := of_nat (length (IP addr) div 4)]" if "atyp = 3"
  proof -
    from that assms(2) e v have r: "readDomainAddress E c1 initReply = Inr (c2, reply, addr)"
      by simp
    then show ?thesis
      by (auto simp: readDomainAddress_def Let_def split: if_splits prod.splits option.splits)
  qed
  show ?thesis using v ip dom by blast
qed

lemma request_Inr_outbox:
  assumes "request E c = Inr (c2, reply, addr)"
  shows "outbox c2 = outbox c"
proof -
  obtain d e c1 where h: "ReadFull c 4 = ((d, e), c1)" by (metis prod.exhaust)
  have o1: "outbox c1 = outbox c" using h by (rule ReadFull_outbox)
  from assms h have
    "readIPAddress c1 (filled 4 d ! 3) initReply = Inr (c2, reply, addr) \<or>
     readDomainAddress E c1 initReply = Inr (c2, reply, addr)"
    by (auto simp: request_def Let_def split: if_splits prod.splits)
  then show ?thesis
  proof
    assume "readIPAddress c1 (filled 4 d ! 3) initReply = Inr (c2, reply, addr)"
    then have "\<exists>n r. ReadFull c1 n = (r, c2)"
      by (auto simp: readIPAddress_def Let_def split: if_splits prod.splits)
    then show ?thesis using o1 by (auto dest: ReadFull_outbox)
  next
    assume r: "readDomainAddress E c1 initReply = Inr (c2, reply, addr)"
    obtain d1 e1 ca where r1: "ReadFull c1 1 = ((d1, e1), ca)" by (metis prod.exhaust)
    obtain d2 e2 cb where r2: "ReadFull ca (unat (filled 1 d1 ! 0)) = ((d2, e2), cb)"
      by (metis prod.exhaust)
    obtain d3 e3 cc where r3: "ReadFull cb 2 = ((d3, e3), cc)" by (metis prod.exhaust)
    from r r1 r2 r3 have "c2 = cc"
      by (simp add: readDomainAddress_def Let_def split: if_splits option.splits)
    then show ?thesis
      using o1 ReadFull_outbox[OF r1] ReadFull_outbox[OF r2] ReadFull_outbox[OF r3] by simp
  qed
qed

lemma request_Inr_reply:
  assumes "ReadFull c 4 = (([ver, cmd, rsv, atyp], None), c1)"
    and "request E c = Inr (c2, reply, addr)"
  shows "reply = initReply[3 := (if atyp = 3 then of_nat (length (IP addr) div 4) else atyp)]"
  using request_Inr[OF assms] by simp

lemma initReply_nth3: "(initReply[3 := t]) ! 3 = t"
  by (simp add: initReply_eq)

lemma failure_frame: "take 6 ((initReply[3 := t])[Suc 0 := 5]) = [5, 5, 0, t, 0, 0]"
  by (simp add: initReply_eq)

lemma successReply_v4:
  assumes "length (IP addr) = 4"
  shows "successReply (initReply[3 := 1]) addr =
           Some ([5, 0, 0, 1] @ IP addr @
                 [word_of_int (drop_bit 8 (Port addr)), word_of_int (Port addr smod 256)])"
  using assms by (cases addr) (simp add: successReply_ip4)

lemma successReply_v6:
  assumes "length (IP addr) = 16"
  shows "successReply (initReply[3 := 4]) addr =
           Some ([5, 0, 0, 4] @ IP addr @
                 [word_of_int (drop_bit 8 (Port addr)), word_of_int (Port addr smod 256)])"
  using assms by (cases addr) (simp add: successReply_ip16)

text \<open>
  Claim C2 says that every CONNECT whose dial fails is answered with the eight bytes
  \<open>05 05 00 00 00 00 00 00\<close>. The source writes \<^verbatim>\<open>reply[:6]\<close> (line 170), with the
  address type already stored in \<^verbatim>\<open>reply[3]\<close>: for the request \<open>05 01 00 01 01 02 03 04
  00 50\<close> the six bytes \<open>05 05 00 01 00 00\<close>.
\<close>

theorem dial_failure_counterexample:
  "clientLoop envDown (peer [[5, 1, 0], [5, 1, 0, 1, 1, 2, 3, 4, 0, 80]]) =
     Some (FailedConnect, (peer [])\<lparr>outbox := [[5, 0], [5, 5, 0, 1, 0, 0]]\<rparr>)"
  by (simp add: clientLoop_def negotiate_def greeting_def request_def readIPAddress_def
      decodeAddress_def connect_def envDown_def ReadFull.simps Read_def Write_def peer_def
      filled_def initReply_eq)

text \<open>
  Claim C2, amended. For every CONNECT request that passes the request stage and whose
  dial fails, \<^verbatim>\<open>clientLoop\<close> calls \<^verbatim>\<open>Write\<close> with exactly the six bytes
  \<open>05 05 00 t 00 00\<close> and returns (the connection is closed); it is the only write after
  the method selection. \<open>t\<close> is the address type stored in the reply array: the address
  type of the request when that is 0x01 or 0x04, and \<^verbatim>\<open>len(ips[0]) / 4\<close> of the resolved
  address for a domain name.
\<close>

theorem dial_failure_reply:
  assumes "greeting client = Inr c"
    and "ReadFull c 4 = (([ver, cmd, rsv, atyp], None), c1)"
    and "request E c = Inr (c2, reply, addr)"
    and "DialTCP E addr = None"
  shows "clientLoop E client =
           Some (FailedConnect, snd (Write c2 [5, 5, 0, reply ! 3, 0, 0])) \<and>
         outbox (snd (Write c2 [5, 5, 0, reply ! 3, 0, 0])) =
           outbox client @ [[5, 0], [5, 5, 0, reply ! 3, 0, 0]] \<and>
         (atyp \<noteq> 3 \<longrightarrow> reply ! 3 = atyp) \<and>
         (atyp = 3 \<longrightarrow> reply ! 3 = of_nat (length (IP addr) div 4))"
proof -
  define t where "t = (if atyp = 3 then of_nat (length (IP addr) div 4) else atyp)"
  have r: "reply = initReply[3 := t]"
    unfolding t_def using assms(2,3) by (rule request_Inr_reply)
  have t3: "reply ! 3 = t" unfolding r by (rule initReply_nth3)
  have f: "take 6 (reply[Suc 0 := 5]) = [5, 5, 0, t, 0, 0]" unfolding r by (rule failure_frame)
  have "negotiate E client = connect E c2 reply addr"
    using assms(1,3) by (rule negotiate_request_Inr)
  then have n: "negotiate E client = Inl (FailedConnect, snd (Write c2 [5, 5, 0, t, 0, 0]))"
    using assms(4) f by (simp add: connect_def split: prod.splits)
  have cl: "clientLoop E client = Some (FailedConnect, snd (Write c2 [5, 5, 0, t, 0, 0]))"
    using n by (simp add: clientLoop_def)
  have o: "outbox c2 = outbox client @ [[5, 0]]"
    using request_Inr_outbox[OF assms(3)] greeting_Inr_outbox[OF assms(1)] by simp
  have ob: "outbox (snd (Write c2 [5, 5, 0, t, 0, 0])) =
      outbox client @ [[5, 0], [5, 5, 0, t, 0, 0]]"
    using o by (simp add: Write_snd_outbox)
  have a: "(atyp \<noteq> 3 \<longrightarrow> t = atyp) \<and> (atyp = 3 \<longrightarrow> t = of_nat (length (IP addr) div 4))"
    by (simp add: t_def)
  show ?thesis
    unfolding t3 using cl ob a by blast
qed

text \<open>The requests \<open>05 01 00 01 01 02 03 04 00 50\<close> and \<open>05 01 00 03 02 41 42 01 bb\<close>
  with no dial succeeding.\<close>

theorem dial_failure_reply_witness:
  "(greeting (peer [[5, 1, 0], [5, 1, 0, 1, 1, 2, 3, 4, 0, 80]]) =
      Inr ((peer [[5, 1, 0, 1, 1, 2, 3, 4, 0, 80]])\<lparr>outbox := [[5, 0]]\<rparr>) \<and>
    ReadFull ((peer [[5, 1, 0, 1, 1, 2, 3, 4, 0, 80]])\<lparr>outbox := [[5, 0]]\<rparr>) 4 =
      (([5, 1, 0, 1], None), (peer [[1, 2, 3, 4, 0, 80]])\<lparr>outbox := [[5, 0]]\<rparr>) \<and>
    request envDown ((peer [[5, 1, 0, 1, 1, 2, 3, 4, 0, 80]])\<lparr>outbox := [[5, 0]]\<rparr>) =
      Inr ((peer [])\<lparr>outbox := [[5, 0]]\<rparr>, initReply[3 := 1], \<lparr>IP = [1, 2, 3, 4], Port = 80\<rparr>) \<and>
    DialTCP envDown \<lparr>IP = [1, 2, 3, 4], Port = 80\<rparr> = None \<and>
    (1 :: byte) \<noteq> 3 \<and>
    clientLoop envDown (peer [[5, 1, 0], [5, 1, 0, 1, 1, 2, 3, 4, 0, 80]]) =
      Some (FailedConnect, (peer [])\<lparr>outbox := [[5, 0], [5, 5, 0, 1, 0, 0]]\<rparr>)) \<and>
   (greeting (peer [[5, 1, 0], [5, 1, 0, 3, 2, 65, 66, 1, 187]]) =
      Inr ((peer [[5, 1, 0, 3, 2, 65, 66, 1, 187]])\<lparr>outbox := [[5, 0]]\<rparr>) \<and>
    ReadFull ((peer [[5, 1, 0, 3, 2, 65, 66, 1, 187]])\<lparr>outbox := [[5, 0]]\<rparr>) 4 =
      (([5, 1, 0, 3], None), (peer [[2, 65, 66, 1, 187]])\<lparr>outbox := [[5, 0]]\<rparr>) \<and>
    request envNoRoute ((peer [[5, 1, 0, 3, 2, 65, 66, 1, 187]])\<lparr>outbox := [[5, 0]]\<rparr>) =
      Inr ((peer [])\<lparr>outbox := [[5, 0]]\<rparr>, initReply[3 := 1],
           \<lparr>IP = [93, 184, 216, 34], Port = 443\<rparr>) \<and>
    DialTCP envNoRoute \<lparr>IP = [93, 184, 216, 34], Port = 443\<rparr> = None \<and>
    clientLoop envNoRoute (peer [[5, 1, 0], [5, 1, 0, 3, 2, 65, 66, 1, 187]]) =
      Some (FailedConnect, (peer [])\<lparr>outbox := [[5, 0], [5, 5, 0, 1, 0, 0]]\<rparr>))"
proof -
  have g1: "greeting (peer [[5, 1, 0], [5, 1, 0, 1, 1, 2, 3, 4, 0, 80]]) =
      Inr ((peer [[5, 1, 0, 1, 1, 2, 3, 4, 0, 80]])\<lparr>outbox := [[5, 0]]\<rparr>)"
    by (simp add: greeting_def ReadFull.simps Read_def Write_def peer_def filled_def)
  have h1: "ReadFull ((peer [[5, 1, 0, 1, 1, 2, 3, 4, 0, 80]])\<lparr>outbox := [[5, 0]]\<rparr>) 4 =
      (([5, 1, 0, 1], None), (peer [[1, 2, 3, 4, 0, 80]])\<lparr>outbox := [[5, 0]]\<rparr>)"
    by (simp add: ReadFull.simps Read_def peer_def)
  have b1: "ReadFull ((peer [[1, 2, 3, 4, 0, 80]])\<lparr>outbox := [[5, 0]]\<rparr>) 6 =
      (([1, 2, 3, 4, 0, 80], None), (peer [])\<lparr>outbox := [[5, 0]]\<rparr>)"
    by (simp add: ReadFull.simps Read_def peer_def)
  have p1: "portOf 0 80 = 80" by (simp add: portOf_def)
  have q1: "request envDown ((peer [[5, 1, 0, 1, 1, 2, 3, 4, 0, 80]])\<lparr>outbox := [[5, 0]]\<rparr>) =
      Inr ((peer [])\<lparr>outbox := [[5, 0]]\<rparr>, initReply[3 := 1], \<lparr>IP = [1, 2, 3, 4], Port = 80\<rparr>)"
    by (simp add: request_eq[OF h1] readIPAddress_v4[OF b1] decodeAddress_v4 p1)
  have d1: "DialTCP envDown \<lparr>IP = [1, 2, 3, 4], Port = 80\<rparr> = None"
    by (simp add: envDown_def)
  have w1: "snd (Write ((peer [])\<lparr>outbox := [[5, 0]]\<rparr>) [5, 5, 0, 1, 0, 0]) =
      (peer [])\<lparr>outbox := [[5, 0], [5, 5, 0, 1, 0, 0]]\<rparr>"
    by (simp add: Write_def peer_def)
  have i1: "(initReply[3 := 1]) ! 3 = (1 :: byte)" by (rule initReply_nth3)
  have n1: "(1 :: byte) \<noteq> 3" by simp
  from dial_failure_reply[OF g1 h1 q1 d1]
  have A: "clientLoop envDown (peer [[5, 1, 0], [5, 1, 0, 1, 1, 2, 3, 4, 0, 80]]) =
      Some (FailedConnect, (peer [])\<lparr>outbox := [[5, 0], [5, 5, 0, 1, 0, 0]]\<rparr>)"
    unfolding i1 w1 by blast
  have g2: "greeting (peer [[5, 1, 0], [5, 1, 0, 3, 2, 65, 66, 1, 187]]) =
      Inr ((peer [[5, 1, 0, 3, 2, 65, 66, 1, 187]])\<lparr>outbox := [[5, 0]]\<rparr>)"
    by (simp add: greeting_def ReadFull.simps Read_def Write_def peer_def filled_def)
  have h2: "ReadFull ((peer [[5, 1, 0, 3, 2, 65, 66, 1, 187]])\<lparr>outbox := [[5, 0]]\<rparr>) 4 =
      (([5, 1, 0, 3], None), (peer [[2, 65, 66, 1, 187]])\<lparr>outbox := [[5, 0]]\<rparr>)"
    by (simp add: ReadFull.simps Read_def peer_def)
  have r2: "ReadFull ((peer [[2, 65, 66, 1, 187]])\<lparr>outbox := [[5, 0]]\<rparr>) 1 =
     (([2], None), (peer [[65, 66, 1, 187]])\<lparr>outbox := [[5, 0]]\<rparr>)"
    by (simp add: ReadFull.simps Read_def peer_def)
  have r3: "ReadFull ((peer [[65, 66, 1, 187]])\<lparr>outbox := [[5, 0]]\<rparr>) (unat (2 :: byte)) =
     (([65, 66], None), (peer [[1, 187]])\<lparr>outbox := [[5, 0]]\<rparr>)"
    by (simp add: ReadFull.simps Read_def peer_def)
  have r4: "ReadFull ((peer [[1, 187]])\<lparr>outbox := [[5, 0]]\<rparr>) 2 =
     (([1, 187], None), (peer [])\<lparr>outbox := [[5, 0]]\<rparr>)"
    by (simp add: ReadFull.simps Read_def peer_def)
  have p2: "portOf 1 187 = 443" by (simp add: portOf_def)
  have l2: "LookupIP envNoRoute [65, 66] = Some [[93, 184, 216, 34]]"
    by (simp add: envNoRoute_def)
  have q2: "request envNoRoute ((peer [[5, 1, 0, 3, 2, 65, 66, 1, 187]])\<lparr>outbox := [[5, 0]]\<rparr>) =
      Inr ((peer [])\<lparr>outbox := [[5, 0]]\<rparr>, initReply[3 := 1],
           \<lparr>IP = [93, 184, 216, 34], Port = 443\<rparr>)"
    by (simp add: domain_request_eq[OF h2 r2 r3] l2 r4 filled_def p2)
  have d2: "DialTCP envNoRoute \<lparr>IP = [93, 184, 216, 34], Port = 443\<rparr> = None"
    by (simp add: envNoRoute_def)
  from dial_failure_reply[OF g2 h2 q2 d2]
  have B: "clientLoop envNoRoute (peer [[5, 1, 0], [5, 1, 0, 3, 2, 65, 66, 1, 187]]) =
      Some (FailedConnect, (peer [])\<lparr>outbox := [[5, 0], [5, 5, 0, 1, 0, 0]]\<rparr>)"
    unfolding i1 w1 by blast
  show ?thesis
    using g1 h1 q1 d1 n1 A g2 h2 q2 d2 B by blast
qed

text \<open>
  Claim C1 says that the success reply carries the address and port of the locally
  opened outbound socket. The source copies \<^verbatim>\<open>remoteAddress\<close>, the address it dialed
  (lines 177 to 179), and never asks the outbound socket for its local address: with the
  outbound socket bound to 10.0.0.1:50000, the request for 1.2.3.4:80 is answered with
  \<open>05 00 00 01 01 02 03 04 00 50\<close>, whose address part decodes to 1.2.3.4:80.
\<close>

theorem bound_address_counterexample:
  "negotiate envUp (peer [[5, 1, 0], [5, 1, 0, 1, 1, 2, 3, 4, 0, 80]]) =
     Inr ((peer [])\<lparr>outbox := [[5, 0], [5, 0, 0, 1, 1, 2, 3, 4, 0, 80]]\<rparr>, upstream) \<and>
   localAddr upstream = \<lparr>IP = [10, 0, 0, 1], Port = 50000\<rparr> \<and>
   decodeAddress 4 (drop 4 [5, 0, 0, 1, 1, 2, 3, 4, 0, 80]) = \<lparr>IP = [1, 2, 3, 4], Port = 80\<rparr>"
  by (simp add: negotiate_def greeting_def request_def readIPAddress_def
      decodeAddress_def connect_def envUp_def upstream_def ReadFull.simps Read_def Write_def
      peer_def filled_def initReply_eq successReply_def copySlice_def portOf_def
      signed_modulo_int_def)

text \<open>
  Claim C1, amended. On a successful CONNECT (the request passes the request stage, the
  dial succeeds, the write of the reply returns no error) the reply written is \<open>05 00 00\<close>,
  the address type, then the address that was dialed and its port, high byte first: the
  requested destination (for a domain name the first resolved address, when it has 4 or
  16 bytes), whatever the outbound socket \<open>remote\<close> is bound to. The address type is the
  length of that address divided by 4. It is the only write after the method selection.
\<close>

theorem success_reply_carries_destination:
  assumes "greeting client = Inr c"
    and "ReadFull c 4 = (([ver, cmd, rsv, atyp], None), c1)"
    and "request E c = Inr (c2, reply, addr)"
    and "DialTCP E addr = Some remote"
    and "atyp = 3 \<longrightarrow> length (IP addr) = 4 \<or> length (IP addr) = 16"
    and "Write c2 ([5, 0, 0, of_nat (length (IP addr) div 4)] @ IP addr @
                   [word_of_int (drop_bit 8 (Port addr)), word_of_int (Port addr smod 256)]) =
           ((n, None), c3)"
  shows "negotiate E client = Inr (c3, remote) \<and>
         outbox c3 =
           outbox client @
             [[5, 0],
              [5, 0, 0, of_nat (length (IP addr) div 4)] @ IP addr @
                [word_of_int (drop_bit 8 (Port addr)), word_of_int (Port addr smod 256)]]"
proof -
  define frame where "frame = [5, 0, 0, of_nat (length (IP addr) div 4)] @ IP addr @
      [word_of_int (drop_bit 8 (Port addr)), word_of_int (Port addr smod 256)]"
  note s = request_Inr[OF assms(2,3)]
  have a: "addr = \<lparr>IP = IP addr, Port = Port addr\<rparr>" by simp
  have fr: "successReply reply addr = Some frame"
  proof (cases "atyp = 3")
    case True
    with s have r: "reply = initReply[3 := of_nat (length (IP addr) div 4)]" by blast
    from True assms(5) have "length (IP addr) = 4 \<or> length (IP addr) = 16" by blast
    then show ?thesis
    proof
      assume l: "length (IP addr) = 4"
      have "successReply (initReply[3 := 1]) addr = Some frame"
        unfolding frame_def using successReply_v4[OF l] l by simp
      then show ?thesis using r l by simp
    next
      assume l: "length (IP addr) = 16"
      have "successReply (initReply[3 := 4]) addr = Some frame"
        unfolding frame_def using successReply_v6[OF l] l by simp
      then show ?thesis using r l by simp
    qed
  next
    case False
    with s have r: "reply = initReply[3 := atyp]" and l: "length (IP addr) = 4 * unat atyp"
      and v: "atyp = 1 \<or> atyp = 4" by blast+
    from v show ?thesis
    proof
      assume t: "atyp = 1"
      with l have l4: "length (IP addr) = 4" by simp
      have "successReply (initReply[3 := 1]) addr = Some frame"
        unfolding frame_def using successReply_v4[OF l4] l4 by simp
      then show ?thesis using r t by simp
    next
      assume t: "atyp = 4"
      with l have l16: "length (IP addr) = 16" by simp
      have "successReply (initReply[3 := 4]) addr = Some frame"
        unfolding frame_def using successReply_v6[OF l16] l16 by simp
      then show ?thesis using r t by simp
    qed
  qed
  have w: "Write c2 frame = ((n, None), c3)"
    unfolding frame_def by (rule assms(6))
  have "negotiate E client = connect E c2 reply addr"
    using assms(1,3) by (rule negotiate_request_Inr)
  then have n: "negotiate E client = Inr (c3, remote)"
    using assms(4) fr w by (simp add: connect_def)
  have o: "outbox c2 = outbox client @ [[5, 0]]"
    using request_Inr_outbox[OF assms(3)] greeting_Inr_outbox[OF assms(1)] by simp
  have "outbox c3 = outbox client @ [[5, 0], frame]"
    using o Write_outbox[OF w] by simp
  then show ?thesis
    using n unfolding frame_def by blast
qed

text \<open>The requests \<open>05 01 00 01 01 02 03 04 00 50\<close> and \<open>05 01 00 03 02 41 42 01 bb\<close>
  with every dial succeeding.\<close>

theorem success_reply_carries_destination_witness:
  "(greeting (peer [[5, 1, 0], [5, 1, 0, 1, 1, 2, 3, 4, 0, 80]]) =
      Inr ((peer [[5, 1, 0, 1, 1, 2, 3, 4, 0, 80]])\<lparr>outbox := [[5, 0]]\<rparr>) \<and>
    ReadFull ((peer [[5, 1, 0, 1, 1, 2, 3, 4, 0, 80]])\<lparr>outbox := [[5, 0]]\<rparr>) 4 =
      (([5, 1, 0, 1], None), (peer [[1, 2, 3, 4, 0, 80]])\<lparr>outbox := [[5, 0]]\<rparr>) \<and>
    request envUp ((peer [[5, 1, 0, 1, 1, 2, 3, 4, 0, 80]])\<lparr>outbox := [[5, 0]]\<rparr>) =
      Inr ((peer [])\<lparr>outbox := [[5, 0]]\<rparr>, initReply[3 := 1], \<lparr>IP = [1, 2, 3, 4], Port = 80\<rparr>) \<and>
    DialTCP envUp \<lparr>IP = [1, 2, 3, 4], Port = 80\<rparr> = Some upstream \<and>
    Write ((peer [])\<lparr>outbox := [[5, 0]]\<rparr>) [5, 0, 0, 1, 1, 2, 3, 4, 0, 80] =
      ((10, None), (peer [])\<lparr>outbox := [[5, 0], [5, 0, 0, 1, 1, 2, 3, 4, 0, 80]]\<rparr>) \<and>
    negotiate envUp (peer [[5, 1, 0], [5, 1, 0, 1, 1, 2, 3, 4, 0, 80]]) =
      Inr ((peer [])\<lparr>outbox := [[5, 0], [5, 0, 0, 1, 1, 2, 3, 4, 0, 80]]\<rparr>, upstream)) \<and>
   (greeting (peer [[5, 1, 0], [5, 1, 0, 3, 2, 65, 66, 1, 187]]) =
      Inr ((peer [[5, 1, 0, 3, 2, 65, 66, 1, 187]])\<lparr>outbox := [[5, 0]]\<rparr>) \<and>
    ReadFull ((peer [[5, 1, 0, 3, 2, 65, 66, 1, 187]])\<lparr>outbox := [[5, 0]]\<rparr>) 4 =
      (([5, 1, 0, 3], None), (peer [[2, 65, 66, 1, 187]])\<lparr>outbox := [[5, 0]]\<rparr>) \<and>
    request envUp ((peer [[5, 1, 0, 3, 2, 65, 66, 1, 187]])\<lparr>outbox := [[5, 0]]\<rparr>) =
      Inr ((peer [])\<lparr>outbox := [[5, 0]]\<rparr>, initReply[3 := 1],
           \<lparr>IP = [93, 184, 216, 34], Port = 443\<rparr>) \<and>
    DialTCP envUp \<lparr>IP = [93, 184, 216, 34], Port = 443\<rparr> = Some upstream \<and>
    length [93, 184, 216, 34 :: byte] = 4 \<and>
    negotiate envUp (peer [[5, 1, 0], [5, 1, 0, 3, 2, 65, 66, 1, 187]]) =
      Inr ((peer [])\<lparr>outbox := [[5, 0], [5, 0, 0, 1, 93, 184, 216, 34, 1, 187]]\<rparr>, upstream))"
proof -
  have g1: "greeting (peer [[5, 1, 0], [5, 1, 0, 1, 1, 2, 3, 4, 0, 80]]) =
      Inr ((peer [[5, 1, 0, 1, 1, 2, 3, 4, 0, 80]])\<lparr>outbox := [[5, 0]]\<rparr>)"
    by (simp add: greeting_def ReadFull.simps Read_def Write_def peer_def filled_def)
  have h1: "ReadFull ((peer [[5, 1, 0, 1, 1, 2, 3, 4, 0, 80]])\<lparr>outbox := [[5, 0]]\<rparr>) 4 =
      (([5, 1, 0, 1], None), (peer [[1, 2, 3, 4, 0, 80]])\<lparr>outbox := [[5, 0]]\<rparr>)"
    by (simp add: ReadFull.simps Read_def peer_def)
  have b1: "ReadFull ((peer [[1, 2, 3, 4, 0, 80]])\<lparr>outbox := [[5, 0]]\<rparr>) 6 =
      (([1, 2, 3, 4, 0, 80], None), (peer [])\<lparr>outbox := [[5, 0]]\<rparr>)"
    by (simp add: ReadFull.simps Read_def peer_def)
  have p1: "portOf 0 80 = 80" by (simp add: portOf_def)
  have q1: "request envUp ((peer [[5, 1, 0, 1, 1, 2, 3, 4, 0, 80]])\<lparr>outbox := [[5, 0]]\<rparr>) =
      Inr ((peer [])\<lparr>outbox := [[5, 0]]\<rparr>, initReply[3 := 1], \<lparr>IP = [1, 2, 3, 4], Port = 80\<rparr>)"
    by (simp add: request_eq[OF h1] readIPAddress_v4[OF b1] decodeAddress_v4 p1)
  have d1: "DialTCP envUp \<lparr>IP = [1, 2, 3, 4], Port = 80\<rparr> = Some upstream"
    by (simp add: envUp_def)
  have w1: "Write ((peer [])\<lparr>outbox := [[5, 0]]\<rparr>) [5, 0, 0, 1, 1, 2, 3, 4, 0, 80] =
      ((10, None), (peer [])\<lparr>outbox := [[5, 0], [5, 0, 0, 1, 1, 2, 3, 4, 0, 80]]\<rparr>)"
    by (simp add: Write_def peer_def)
  have f1: "[5, 0, 0, of_nat (length (IP \<lparr>IP = [1, 2, 3, 4], Port = 80\<rparr>) div 4)] @
      IP \<lparr>IP = [1, 2, 3, 4], Port = 80\<rparr> @
      [word_of_int (drop_bit 8 (Port \<lparr>IP = [1, 2, 3, 4], Port = 80\<rparr>)),
       word_of_int (Port \<lparr>IP = [1, 2, 3, 4], Port = 80\<rparr> smod 256)] =
      [5, 0, 0, 1, 1, 2, 3, 4, 0, 80 :: byte]"
    by (simp add: signed_modulo_int_def)
  have a1: "(1 :: byte) = 3 \<longrightarrow>
      length (IP \<lparr>IP = [1, 2, 3, 4 :: byte], Port = 80\<rparr>) = 4 \<or>
      length (IP \<lparr>IP = [1, 2, 3, 4 :: byte], Port = 80\<rparr>) = 16"
    by simp
  have A: "negotiate envUp (peer [[5, 1, 0], [5, 1, 0, 1, 1, 2, 3, 4, 0, 80]]) =
      Inr ((peer [])\<lparr>outbox := [[5, 0], [5, 0, 0, 1, 1, 2, 3, 4, 0, 80]]\<rparr>, upstream)"
    using success_reply_carries_destination[OF g1 h1 q1 d1 a1 w1[folded f1]] unfolding f1 by blast
  have g2: "greeting (peer [[5, 1, 0], [5, 1, 0, 3, 2, 65, 66, 1, 187]]) =
      Inr ((peer [[5, 1, 0, 3, 2, 65, 66, 1, 187]])\<lparr>outbox := [[5, 0]]\<rparr>)"
    by (simp add: greeting_def ReadFull.simps Read_def Write_def peer_def filled_def)
  have h2: "ReadFull ((peer [[5, 1, 0, 3, 2, 65, 66, 1, 187]])\<lparr>outbox := [[5, 0]]\<rparr>) 4 =
      (([5, 1, 0, 3], None), (peer [[2, 65, 66, 1, 187]])\<lparr>outbox := [[5, 0]]\<rparr>)"
    by (simp add: ReadFull.simps Read_def peer_def)
  have r2: "ReadFull ((peer [[2, 65, 66, 1, 187]])\<lparr>outbox := [[5, 0]]\<rparr>) 1 =
     (([2], None), (peer [[65, 66, 1, 187]])\<lparr>outbox := [[5, 0]]\<rparr>)"
    by (simp add: ReadFull.simps Read_def peer_def)
  have r3: "ReadFull ((peer [[65, 66, 1, 187]])\<lparr>outbox := [[5, 0]]\<rparr>) (unat (2 :: byte)) =
     (([65, 66], None), (peer [[1, 187]])\<lparr>outbox := [[5, 0]]\<rparr>)"
    by (simp add: ReadFull.simps Read_def peer_def)
  have r4: "ReadFull ((peer [[1, 187]])\<lparr>outbox := [[5, 0]]\<rparr>) 2 =
     (([1, 187], None), (peer [])\<lparr>outbox := [[5, 0]]\<rparr>)"
    by (simp add: ReadFull.simps Read_def peer_def)
  have p2: "portOf 1 187 = 443" by (simp add: portOf_def)
  have l2: "LookupIP envUp [65, 66] = Some [[93, 184, 216, 34]]"
    by (simp add: envUp_def)
  have q2: "request envUp ((peer [[5, 1, 0, 3, 2, 65, 66, 1, 187]])\<lparr>outbox := [[5, 0]]\<rparr>) =
      Inr ((peer [])\<lparr>outbox := [[5, 0]]\<rparr>, initReply[3 := 1],
           \<lparr>IP = [93, 184, 216, 34], Port = 443\<rparr>)"
    by (simp add: domain_request_eq[OF h2 r2 r3] l2 r4 filled_def p2)
  have d2: "DialTCP envUp \<lparr>IP = [93, 184, 216, 34], Port = 443\<rparr> = Some upstream"
    by (simp add: envUp_def)
  have w2: "Write ((peer [])\<lparr>outbox := [[5, 0]]\<rparr>) [5, 0, 0, 1, 93, 184, 216, 34, 1, 187] =
      ((10, None), (peer [])\<lparr>outbox := [[5, 0], [5, 0, 0, 1, 93, 184, 216, 34, 1, 187]]\<rparr>)"
    by (simp add: Write_def peer_def)
  have f2: "[5, 0, 0, of_nat (length (IP \<lparr>IP = [93, 184, 216, 34], Port = 443\<rparr>) div 4)] @
      IP \<lparr>IP = [93, 184, 216, 34], Port = 443\<rparr> @
      [word_of_int (drop_bit 8 (Port \<lparr>IP = [93, 184, 216, 34], Port = 443\<rparr>)),
       word_of_int (Port \<lparr>IP = [93, 184, 216, 34], Port = 443\<rparr> smod 256)] =
      [5, 0, 0, 1, 93, 184, 216, 34, 1, 187 :: byte]"
    by (simp add: signed_modulo_int_def)
  have len2: "length [93, 184, 216, 34 :: byte] = 4" by simp
  have a2: "(3 :: byte) = 3 \<longrightarrow>
      length (IP \<lparr>IP = [93, 184, 216, 34 :: byte], Port = 443\<rparr>) = 4 \<or>
      length (IP \<lparr>IP = [93, 184, 216, 34 :: byte], Port = 443\<rparr>) = 16"
    by simp
  have B: "negotiate envUp (peer [[5, 1, 0], [5, 1, 0, 3, 2, 65, 66, 1, 187]]) =
      Inr ((peer [])\<lparr>outbox := [[5, 0], [5, 0, 0, 1, 93, 184, 216, 34, 1, 187]]\<rparr>, upstream)"
    using success_reply_carries_destination[OF g2 h2 q2 d2 a2 w2[folded f2]] unfolding f2 by blast
  show ?thesis
    using g1 h1 q1 d1 w1 A g2 h2 q2 d2 len2 B by blast
qed

section \<open>The relay loops\<close>

lemma fatal_iff: "(e \<noteq> None \<and> e \<noteq> Some EOF) = (e = Some OtherError)"
proof (cases e)
  case None
  then show ?thesis by simp
next
  case (Some x)
  then show ?thesis by (cases x) simp_all
qed

lemma Read_errors:
  assumes "Read c k = ((d, e), c')"
  shows "snd ` set (reads c') \<subseteq> snd ` set (reads c) \<and>
         (e = Some OtherError \<longrightarrow> Some OtherError \<in> snd ` set (reads c))"
proof (cases "reads c")
  case Nil
  with assms show ?thesis by (auto simp: Read_def)
next
  case (Cons x rs)
  obtain a b where x: "x = (a, b)" by (cases x)
  show ?thesis
  proof (cases "length a \<le> k")
    case True
    with assms Cons x have "reads c' = rs" "e = b" by (auto simp: Read_def)
    with Cons x show ?thesis by auto
  next
    case False
    with assms Cons x have "reads c' = (drop k a, b) # rs" "e = None" by (auto simp: Read_def)
    with Cons x show ?thesis by auto
  qed
qed

lemma Write_errors:
  assumes "Write c b = ((n, e), c')"
  shows "snd ` set (accepts c') \<subseteq> snd ` set (accepts c) \<and>
         (e = Some OtherError \<longrightarrow> Some OtherError \<in> snd ` set (accepts c))"
proof (cases "accepts c")
  case Nil
  with assms show ?thesis by (auto simp: Write_def)
next
  case (Cons x ws)
  obtain a b' where x: "x = (a, b')" by (cases x)
  with assms Cons have "accepts c' = ws" "e = b'" by (auto simp: Write_def)
  with Cons x show ?thesis by auto
qed

lemma forward_step:
  assumes "start < length buf"
    and "Write dst (drop start buf) = ((nw, err), d1)"
  shows "forward dst buf start =
           (if err = Some OtherError then (False, d1) else forward d1 buf (start + nw))"
  by (subst forward.simps) (simp add: assms fatal_iff del: not_None_eq)

lemma forward_errors:
  "forward dst buf start = (ok, dst') \<Longrightarrow>
   snd ` set (accepts dst') \<subseteq> snd ` set (accepts dst) \<and>
   (\<not> ok \<longrightarrow> Some OtherError \<in> snd ` set (accepts dst))"
proof (induction dst buf start arbitrary: ok dst' rule: forward.induct)
  case (1 dst buf start)
  show ?case
  proof (cases "start < length buf")
    case False
    have "forward dst buf start = (True, dst)"
      by (subst forward.simps) (simp add: False)
    with "1.prems" show ?thesis by simp
  next
    case True
    obtain nw err d1 where w: "Write dst (drop start buf) = ((nw, err), d1)"
      by (metis prod.exhaust)
    note we = Write_errors[OF w]
    note st = forward_step[OF True w]
    show ?thesis
    proof (cases "err = Some OtherError")
      case e: True
      with st "1.prems" have "ok = False" "dst' = d1" by simp_all
      with we e show ?thesis by simp
    next
      case e: False
      then have ne: "\<not> (err \<noteq> None \<and> err \<noteq> Some EOF)"
        unfolding fatal_iff .
      from e st "1.prems" have f: "forward d1 buf (start + nw) = (ok, dst')" by simp
      note ih = "1.IH"[OF True w[symmetric] refl ne f]
      with we show ?thesis by blast
    qed
  qed
qed

text \<open>A relay loop that returns has seen a read or a write fail with an error other than
  \<^verbatim>\<open>os.EOF\<close>.\<close>

lemma readClientLoop_returns:
  assumes "readClientLoop client remote = Some y"
  shows "Some OtherError \<in> snd ` set (reads client) \<or>
         Some OtherError \<in> snd ` set (accepts remote)"
proof (rule readClientLoop.raw_induct[where
      P = "\<lambda>c r y. Some OtherError \<in> snd ` set (reads c) \<or> Some OtherError \<in> snd ` set (accepts r)",
      OF _ assms])
  fix f :: "TCPConn \<Rightarrow> TCPConn \<Rightarrow> (TCPConn \<times> TCPConn) option" and c r z
  assume ih: "\<And>c r z. f c r = Some z \<Longrightarrow>
      Some OtherError \<in> snd ` set (reads c) \<or> Some OtherError \<in> snd ` set (accepts r)"
  assume b: "(case Read c 4096 of
       ((buf, err), client') \<Rightarrow>
         if err \<noteq> None \<and> err \<noteq> Some EOF then Some (client', r)
         else
           (case forward r buf 0 of
              (ok, remote') \<Rightarrow>
                if \<not> ok then Some (client', remote')
                else f client' remote')) = Some z"
  obtain buf err c1 where rd: "Read c 4096 = ((buf, err), c1)" by (metis prod.exhaust)
  obtain ok r1 where fw: "forward r buf 0 = (ok, r1)" by (metis prod.exhaust)
  note re = Read_errors[OF rd]
  note fe = forward_errors[OF fw]
  show "Some OtherError \<in> snd ` set (reads c) \<or> Some OtherError \<in> snd ` set (accepts r)"
  proof (cases "err = Some OtherError")
    case True
    with re show ?thesis by simp
  next
    case False
    show ?thesis
    proof (cases ok)
      case False
      with fe show ?thesis by simp
    next
      case True
      with b rd fw \<open>err \<noteq> Some OtherError\<close> have "f c1 r1 = Some z"
        by (simp add: fatal_iff del: not_None_eq)
      from ih[OF this] re fe show ?thesis by blast
    qed
  qed
qed

lemma readRemoteLoop_returns:
  assumes "readRemoteLoop client remote = Some y"
  shows "Some OtherError \<in> snd ` set (reads remote) \<or>
         Some OtherError \<in> snd ` set (accepts client)"
proof (rule readRemoteLoop.raw_induct[where
      P = "\<lambda>c r y. Some OtherError \<in> snd ` set (reads r) \<or> Some OtherError \<in> snd ` set (accepts c)",
      OF _ assms])
  fix f :: "TCPConn \<Rightarrow> TCPConn \<Rightarrow> (TCPConn \<times> TCPConn) option" and c r z
  assume ih: "\<And>c r z. f c r = Some z \<Longrightarrow>
      Some OtherError \<in> snd ` set (reads r) \<or> Some OtherError \<in> snd ` set (accepts c)"
  assume b: "(case Read r 4096 of
       ((buf, err), remote') \<Rightarrow>
         if err \<noteq> None \<and> err \<noteq> Some EOF then Some (c, remote')
         else
           (case forward c buf 0 of
              (ok, client') \<Rightarrow>
                if \<not> ok then Some (client', remote')
                else f client' remote')) = Some z"
  obtain buf err r1 where rd: "Read r 4096 = ((buf, err), r1)" by (metis prod.exhaust)
  obtain ok c1 where fw: "forward c buf 0 = (ok, c1)" by (metis prod.exhaust)
  note re = Read_errors[OF rd]
  note fe = forward_errors[OF fw]
  show "Some OtherError \<in> snd ` set (reads r) \<or> Some OtherError \<in> snd ` set (accepts c)"
  proof (cases "err = Some OtherError")
    case True
    with re show ?thesis by simp
  next
    case False
    show ?thesis
    proof (cases ok)
      case False
      with fe show ?thesis by simp
    next
      case True
      with b rd fw \<open>err \<noteq> Some OtherError\<close> have "f c1 r1 = Some z"
        by (simp add: fatal_iff del: not_None_eq)
      from ih[OF this] re fe show ?thesis by blast
    qed
  qed
qed

text \<open>Without such an error on its source and its sink, a relay loop never returns.\<close>

lemma readClientLoop_spins:
  assumes "Some OtherError \<notin> snd ` set (reads client)"
    and "Some OtherError \<notin> snd ` set (accepts remote)"
  shows "readClientLoop client remote = None"
proof (cases "readClientLoop client remote")
  case None
  then show ?thesis .
next
  case (Some y)
  from readClientLoop_returns[OF this] assms show ?thesis by blast
qed

lemma readRemoteLoop_spins:
  assumes "Some OtherError \<notin> snd ` set (reads remote)"
    and "Some OtherError \<notin> snd ` set (accepts client)"
  shows "readRemoteLoop client remote = None"
proof (cases "readRemoteLoop client remote")
  case None
  then show ?thesis .
next
  case (Some y)
  from readRemoteLoop_returns[OF this] assms show ?thesis by blast
qed

text \<open>A read error other than \<^verbatim>\<open>os.EOF\<close> does end a loop.\<close>

lemma readClientLoop_read_error:
  assumes "reads client = (d, Some OtherError) # rs" and "length d \<le> 4096"
  shows "readClientLoop client remote = Some (client\<lparr>reads := rs\<rparr>, remote)"
  by (subst readClientLoop.simps) (simp add: Read_def assms)

lemma readRemoteLoop_read_error:
  assumes "reads remote = (d, Some OtherError) # rs" and "length d \<le> 4096"
  shows "readRemoteLoop client remote = Some (client, remote\<lparr>reads := rs\<rparr>)"
  by (subst readRemoteLoop.simps) (simp add: Read_def assms)

text \<open>
  Claim C3: each relay loop ends once a read on its source returns end of stream, and
  \<^verbatim>\<open>clientLoop\<close> ends after both sockets have reached end of stream. The source leaves a
  relay loop only by the two \<^verbatim>\<open>return\<close> statements, both under
  \<^verbatim>\<open>err != nil && err != os.EOF\<close> (lines 202 and 210, 228 and 236). On a socket whose peer
  has closed, \<^verbatim>\<open>Read\<close> returns 0 bytes and \<^verbatim>\<open>os.EOF\<close>: the loop writes nothing and reads
  again, for ever. With both sockets at end of stream neither loop returns, the two
  receives from \<^verbatim>\<open>stopChan\<close> never complete, and after a successful CONNECT
  \<^verbatim>\<open>clientLoop\<close> never returns.
\<close>

theorem relay_never_ends_at_end_of_stream:
  "Read (peer []) 4096 = (([], Some EOF), peer []) \<and>
   readClientLoop (peer []) (peer []) = None \<and>
   readRemoteLoop (peer []) (peer []) = None \<and>
   relay (peer []) (peer []) = None \<and>
   negotiate envUp (peer [[5, 1, 0], [5, 1, 0, 1, 1, 2, 3, 4, 0, 80]]) =
     Inr ((peer [])\<lparr>outbox := [[5, 0], [5, 0, 0, 1, 1, 2, 3, 4, 0, 80]]\<rparr>, upstream) \<and>
   clientLoop envUp (peer [[5, 1, 0], [5, 1, 0, 1, 1, 2, 3, 4, 0, 80]]) = None"
proof -
  have r: "Read (peer []) 4096 = (([], Some EOF), peer [])"
    by (simp add: Read_def peer_def)
  have a: "readClientLoop (peer []) (peer []) = None"
    by (rule readClientLoop_spins) (simp_all add: peer_def)
  have b: "readRemoteLoop (peer []) (peer []) = None"
    by (rule readRemoteLoop_spins) (simp_all add: peer_def)
  have c: "relay (peer []) (peer []) = None"
    by (simp add: relay_def a)
  have g: "greeting (peer [[5, 1, 0], [5, 1, 0, 1, 1, 2, 3, 4, 0, 80]]) =
      Inr ((peer [[5, 1, 0, 1, 1, 2, 3, 4, 0, 80]])\<lparr>outbox := [[5, 0]]\<rparr>)"
    by (simp add: greeting_def ReadFull.simps Read_def Write_def peer_def filled_def)
  have h: "ReadFull ((peer [[5, 1, 0, 1, 1, 2, 3, 4, 0, 80]])\<lparr>outbox := [[5, 0]]\<rparr>) 4 =
      (([5, 1, 0, 1], None), (peer [[1, 2, 3, 4, 0, 80]])\<lparr>outbox := [[5, 0]]\<rparr>)"
    by (simp add: ReadFull.simps Read_def peer_def)
  have b1: "ReadFull ((peer [[1, 2, 3, 4, 0, 80]])\<lparr>outbox := [[5, 0]]\<rparr>) 6 =
      (([1, 2, 3, 4, 0, 80], None), (peer [])\<lparr>outbox := [[5, 0]]\<rparr>)"
    by (simp add: ReadFull.simps Read_def peer_def)
  have q: "request envUp ((peer [[5, 1, 0, 1, 1, 2, 3, 4, 0, 80]])\<lparr>outbox := [[5, 0]]\<rparr>) =
      Inr ((peer [])\<lparr>outbox := [[5, 0]]\<rparr>, initReply[3 := 1],
           \<lparr>IP = [1, 2, 3, 4], Port = portOf 0 80\<rparr>)"
    by (simp add: request_eq[OF h] readIPAddress_v4[OF b1] decodeAddress_v4)
  have s: "successReply (initReply[3 := 1]) \<lparr>IP = [1, 2, 3, 4], Port = portOf 0 80\<rparr> =
      Some [5, 0, 0, 1, 1, 2, 3, 4, 0, 80]"
    by (simp add: successReply_ip4 port_hi port_lo)
  have d: "DialTCP envUp a = Some upstream" for a
    by (simp add: envUp_def)
  have n: "negotiate envUp (peer [[5, 1, 0], [5, 1, 0, 1, 1, 2, 3, 4, 0, 80]]) =
     Inr ((peer [])\<lparr>outbox := [[5, 0], [5, 0, 0, 1, 1, 2, 3, 4, 0, 80]]\<rparr>, upstream)"
    unfolding negotiate_request_Inr[OF g q]
    by (simp add: connect_def d s Write_def peer_def)
  have e: "readClientLoop ((peer [])\<lparr>outbox := [[5, 0], [5, 0, 0, 1, 1, 2, 3, 4, 0, 80]]\<rparr>)
      upstream = None"
    by (rule readClientLoop_spins) (simp_all add: peer_def upstream_def)
  have f: "clientLoop envUp (peer [[5, 1, 0], [5, 1, 0, 1, 1, 2, 3, 4, 0, 80]]) = None"
    by (simp add: clientLoop_def n relay_def e)
  show ?thesis using r a b c n f by blast
qed

end
